theory Spec2Isabelle
  imports Main "HOL-Library.Sublist"
begin

section \<open>Python values, errors and paths\<close>

text \<open>
  A \<open>pathlib\<close> path as the library holds it after parsing: the anchor (drive and root,
  empty for a relative path) and the remaining segments. Python's \<open>parts\<close> is the anchor,
  when there is one, followed by the segments.
\<close>

record path =
  anchor :: string
  segs :: "string list"

datatype pyval =
    PNone
  | PBool bool
  | PInt int
  | PStr string
  | PPath path
  | PList "pyval list"
  | PDict "(pyval \<times> pyval) list"
  | PLogger nat

datatype error = KeyError | ValueError | TypeError | OSError | AttributeError | IndexError

text \<open>Truth value of an object, as \<open>not x\<close> tests it.\<close>

fun truthy :: "pyval \<Rightarrow> bool" where
  "truthy PNone = False"
| "truthy (PBool b) = b"
| "truthy (PInt i) = (i \<noteq> 0)"
| "truthy (PStr s) = (s \<noteq> [])"
| "truthy (PPath p) = True"
| "truthy (PList xs) = (xs \<noteq> [])"
| "truthy (PDict kvs) = (kvs \<noteq> [])"
| "truthy (PLogger i) = True"

definition parts :: "path \<Rightarrow> string list" where
  "parts p = (if anchor p = [] then [] else [anchor p]) @ segs p"

text \<open>\<open>str(p)\<close>: the anchor followed by the segments joined with the flavour's separator.\<close>

fun join_with :: "string \<Rightarrow> string list \<Rightarrow> string" where
  "join_with s [] = []"
| "join_with s [x] = x"
| "join_with s (x # y # ys) = x @ s @ join_with s (y # ys)"

definition path_str :: "string \<Rightarrow> path \<Rightarrow> string" where
  "path_str sep p =
     (if anchor p = [] \<and> segs p = [] then ''.'' else anchor p @ join_with sep (segs p))"

text \<open>
  \<open>p.relative_to(other)\<close> succeeds when the parts of \<open>other\<close> are a prefix of the parts of
  \<open>p\<close> (and an empty \<open>other\<close> only for a relative \<open>p\<close>); otherwise it raises ValueError.
\<close>

definition relative_to_ok :: "path \<Rightarrow> path \<Rightarrow> bool" where
  "relative_to_ok p other =
     (prefix (parts other) (parts p) \<and> (parts other = [] \<longrightarrow> anchor p = []))"

text \<open>
  \<open>xs[i]\<close>: an index from 0 up to the length reads from the front, a negative one down
  to minus the length reads from the back, any other raises IndexError.
\<close>

definition py_index :: "'a list \<Rightarrow> int \<Rightarrow> error + 'a" where
  "py_index xs i =
     (if 0 \<le> i \<and> i < int (length xs) then Inr (xs ! nat i)
      else if i < 0 \<and> - i \<le> int (length xs) then Inr (xs ! (length xs - nat (- i)))
      else Inl IndexError)"

text \<open>Decimal rendering of an integer, as an f-string renders it.\<close>

fun str_nat :: "nat \<Rightarrow> string" where
  "str_nat n =
     (if n < 10 then [''0123456789'' ! n]
      else str_nat (n div 10) @ [''0123456789'' ! (n mod 10)])"

declare str_nat.simps [simp del]

definition str_int :: "int \<Rightarrow> string" where
  "str_int i = (if i < 0 then ''-'' @ str_nat (nat (- i)) else str_nat (nat i))"

text \<open>\<open>s.split(c, maxsplit=n)\<close> for a one-character separator \<open>c\<close>.\<close>

fun split_max :: "char \<Rightarrow> nat \<Rightarrow> string \<Rightarrow> string list" where
  "split_max c 0 s = [s]"
| "split_max c (Suc n) s =
     (if c \<in> set s
      then takeWhile (\<lambda>x. x \<noteq> c) s # split_max c n (tl (dropWhile (\<lambda>x. x \<noteq> c) s))
      else [s])"

section \<open>Exception formatter\<close>

text \<open>
  The triple \<open>sys.exc_info()\<close> returns. The traceback is a chain: \<open>exc_tb\<close> is its first
  entry, the frame in which the exception is being handled, and \<open>exc_tb_next\<close> are the
  entries reached through \<open>tb_next\<close>, the last of them the frame that raised. Each entry
  carries the path of its frame's code file and the line number \<open>tb_lineno\<close>.
  \<open>exc_type\<close> is the name printed in \<open>str(type)\<close>, which reads \<open><class 'name'>\<close>;
  \<open>exc_value\<close> is \<open>str(value)\<close>; \<open>exc_doc\<close> is the type's \<open>__doc__\<close>.
\<close>

record tb_entry =
  tb_file :: path
  tb_lineno :: int

record exc_info =
  exc_type :: string
  exc_value :: string
  exc_doc :: "string option"
  exc_tb :: tb_entry
  exc_tb_next :: "tb_entry list"

definition type_str :: "string \<Rightarrow> string" where
  "type_str name = ''<class '' @ [CHR 0x27] @ name @ [CHR 0x27] @ ''>''"

definition str_opt :: "string option \<Rightarrow> string" where
  "str_opt d = (case d of None \<Rightarrow> ''None'' | Some s \<Rightarrow> s)"

definition customFormatException :: "exc_info \<Rightarrow> error + (int \<times> string \<times> string \<times> string option)" where
  "customFormatException e =
     (case py_index (split_max (CHR 0x27) 2 (type_str (exc_type e))) 1 of
        Inl x \<Rightarrow> Inl x
      | Inr err \<Rightarrow> Inr (tb_lineno (exc_tb e), err, exc_value e, exc_doc e))"

text \<open>
  \<open>detailed_exception\<close>: \<open>root\<close> is ROOT_DIR, \<open>sep\<close> the path separator of the platform,
  and the argument is \<open>sys.exc_info()\<close>, \<open>None\<close> when no exception is being handled
  (then \<open>exc_info[2]\<close> is None and reading \<open>tb_frame\<close> raises AttributeError).
  Only the ValueError of \<open>relative_to\<close> is suppressed.
\<close>

definition rel_file :: "path \<Rightarrow> error + string" where
  "rel_file err_file =
     (case py_index (parts err_file) (- 2) of
        Inl x \<Rightarrow> Inl x
      | Inr a \<Rightarrow>
          (case py_index (parts err_file) (- 1) of
             Inl x \<Rightarrow> Inl x
           | Inr b \<Rightarrow> Inr (a @ ''/'' @ b)))"

text \<open>
  The file shown: inside the \<open>with contextlib.suppress(ValueError)\<close> block the path is
  replaced by its last two parts when \<open>relative_to(ROOT_DIR)\<close> does not raise; when it
  raises, the block is left and the path stays as it is.
\<close>

definition err_file_of :: "path \<Rightarrow> string \<Rightarrow> path \<Rightarrow> error + string" where
  "err_file_of root sep err_file =
     (if relative_to_ok err_file root then rel_file err_file
      else Inr (path_str sep err_file))"

definition detailed_exception :: "path \<Rightarrow> string \<Rightarrow> exc_info option \<Rightarrow> error + string" where
  "detailed_exception root sep exc =
     (case exc of
        None \<Rightarrow> Inl AttributeError
      | Some e \<Rightarrow>
          (case err_file_of root sep (tb_file (exc_tb e)) of
             Inl x \<Rightarrow> Inl x
           | Inr err_file \<Rightarrow>
               (case customFormatException e of
                  Inl x \<Rightarrow> Inl x
                | Inr (line, err, error_text, description) \<Rightarrow>
                    Inr (''Exception in '' @ err_file @ '':'' @ str_int line @ '' - '' @ err
                         @ '' - '' @ error_text @ '' - '' @ str_opt description))))"

section \<open>Context adapter\<close>

record adapter =
  a_logger :: pyval
  a_extra :: pyval

text \<open>
  \<open>str\<close> of the generator object that the comprehension in \<open>process\<close> creates: the
  interpreter prints the qualified name of the generator and its address \<open>addr\<close>
  (text such as \<open>0x7f3a5c1d2e40\<close>). The generator is never iterated.
\<close>

definition genexpr_str :: "string \<Rightarrow> string" where
  "genexpr_str addr =
     ''<generator object ContextAdapter.process.<locals>.<genexpr> at '' @ addr @ ''>''"

definition process :: "string \<Rightarrow> adapter \<Rightarrow> string \<Rightarrow> 'k \<Rightarrow> string \<times> 'k" where
  "process addr self msg kwargs =
     (case a_extra self of
        PDict kvs \<Rightarrow>
          (let context_text = genexpr_str addr;
               context_text = take (length context_text - 2) context_text
           in (''['' @ context_text @ ''] '' @ msg, kwargs))
      | PStr s \<Rightarrow> (''['' @ s @ ''] '' @ msg, kwargs)
      | _ \<Rightarrow> (msg, kwargs))"

section \<open>The runtime around the program\<close>

text \<open>
  What the program reads from its surroundings: ROOT_DIR, the platform's path separator,
  \<open>pathlib\<close>'s parser of a string into a path, whether a file can be opened for
  appending, the address the interpreter prints for the generator object of \<open>process\<close>,
  the attribute names of a fresh LogRecord (with \<open>message\<close> and \<open>asctime\<close>), which
  an \<open>extra\<close> dictionary may not overwrite, and the string operator \<open>%\<close>, which
  renders a format string with arguments or raises.
\<close>

record runtime =
  ROOT_DIR :: path
  sep :: string
  to_path :: "string \<Rightarrow> path"
  can_open :: "path \<Rightarrow> bool"
  gen_addr :: string
  reserved :: "string list"
  percent :: "string \<Rightarrow> pyval list \<Rightarrow> error + string"

section \<open>config.py\<close>

record config =
  LOG_LEVEL :: int
  LOG_PATH :: path
  LOG_FILE :: string
  LOGGERNAME :: string

text \<open>
  \<open>argv\<close> is \<open>sys.argv\<close>, \<open>stamp\<close> the text of
  \<open>datetime.now().strftime("_%Y-%m-%d_%H-%M-%S")\<close>, \<open>root\<close> is ROOT_DIR.
\<close>

definition CONFIG :: "string list \<Rightarrow> string \<Rightarrow> path \<Rightarrow> config" where
  "CONFIG argv stamp root =
     \<lparr>LOG_LEVEL = (if ''-d'' \<in> set argv then 10 else 20),
      LOG_PATH = root\<lparr>segs := segs root @ [''logs'']\<rparr>,
      LOG_FILE = ''LeanPython'' @ (if length argv > 1 \<and> ''--date'' \<in> set argv then stamp else []),
      LOGGERNAME = ''LeanPython''\<rparr>"

section \<open>The logging library, as far as the program drives it\<close>

datatype sink = Console | File path

record handler =
  h_sink :: sink
  h_level :: int
  h_fmt :: string
  h_datefmt :: string

record logger_obj =
  l_name :: pyval
  l_level :: int
  l_handlers :: "handler list"

record out_rec =
  o_sink :: sink
  o_level :: int
  o_msg :: string
  o_exc_info :: bool

text \<open>
  The state of the process: the class attribute \<open>_shared_state\<close> (a dict), the
  CustomLogger objects created so far (\<open>PLogger i\<close> refers to the \<open>i\<close>-th), the files
  opened by file handlers, and the records the handlers have emitted.
\<close>

record world =
  shared_state :: "string \<rightharpoonup> pyval"
  heap :: "logger_obj list"
  opened :: "path list"
  emitted :: "out_rec list"

definition nameToLevel :: "(string \<times> int) list" where
  "nameToLevel =
     [(''CRITICAL'', 50), (''FATAL'', 50), (''ERROR'', 40), (''WARN'', 30),
      (''WARNING'', 30), (''INFO'', 20), (''DEBUG'', 10), (''NOTSET'', 0)]"

text \<open>
  \<open>logging._checkLevel\<close>: an int (a bool is one) is accepted as it is, a string must be a
  level name (ValueError otherwise), anything else is a TypeError.
\<close>

fun checkLevel :: "pyval \<Rightarrow> error + int" where
  "checkLevel (PInt i) = Inr i"
| "checkLevel (PBool b) = Inr (if b then 1 else 0)"
| "checkLevel (PStr s) =
     (case map_of nameToLevel s of None \<Rightarrow> Inl ValueError | Some l \<Rightarrow> Inr l)"
| "checkLevel v = Inl TypeError"

definition getitem :: "(string \<rightharpoonup> pyval) \<Rightarrow> string \<Rightarrow> error + pyval" where
  "getitem d k = (case d k of None \<Rightarrow> Inl KeyError | Some v \<Rightarrow> Inr v)"

definition path_join :: "path \<Rightarrow> path \<Rightarrow> path" where
  "path_join p q = (if anchor q \<noteq> [] then q else p\<lparr>segs := segs p @ segs q\<rparr>)"

text \<open>The operator \<open>/\<close>: one operand must be a path, the other a path or a string.\<close>

fun truediv :: "runtime \<Rightarrow> pyval \<Rightarrow> pyval \<Rightarrow> error + path" where
  "truediv rt (PPath p) (PPath q) = Inr (path_join p q)"
| "truediv rt (PPath p) (PStr s) = Inr (path_join p (to_path rt s))"
| "truediv rt (PStr s) (PPath q) = Inr (path_join (to_path rt s) q)"
| "truediv rt a b = Inl TypeError"

definition deref :: "world \<Rightarrow> pyval \<Rightarrow> error + logger_obj" where
  "deref w v =
     (case v of
        PLogger i \<Rightarrow> (if i < length (heap w) then Inr (heap w ! i) else Inl AttributeError)
      | _ \<Rightarrow> Inl AttributeError)"

text \<open>
  \<open>Logger.isEnabledFor\<close>, with \<open>logging.disable\<close> never called (the manager's threshold
  is 0) and a logger that has no parent, so that its effective level is its own.
\<close>

definition isEnabledFor :: "logger_obj \<Rightarrow> int \<Rightarrow> bool" where
  "isEnabledFor lg level = (if 0 \<ge> level then False else level \<ge> l_level lg)"

text \<open>
  \<open>LogRecord.getMessage\<close>: the message as it is when the call had no arguments,
  \<open>msg % args\<close> otherwise (\<open>percent\<close> stands for that step as the record does it,
  a lone non-empty mapping among the arguments being unwrapped first).
\<close>

definition getMessage :: "runtime \<Rightarrow> string \<Rightarrow> pyval list \<Rightarrow> error + string" where
  "getMessage rt msg args = (if args = [] then Inr msg else percent rt msg args)"

text \<open>
  \<open>Logger.callHandlers\<close>: every handler whose level admits the record formats and
  writes it; \<open>o_msg\<close> is the rendered message. A handler that fails to render the
  message reports the failure on stderr and writes nothing, and the call goes on.
\<close>

definition callHandlers :: "runtime \<Rightarrow> logger_obj \<Rightarrow> int \<Rightarrow> string \<Rightarrow> pyval list \<Rightarrow> bool
    \<Rightarrow> world \<Rightarrow> world" where
  "callHandlers rt lg level msg args exc_info w =
     w\<lparr>emitted := emitted w @
          (case getMessage rt msg args of
             Inl e \<Rightarrow> []
           | Inr text \<Rightarrow>
               map (\<lambda>h. \<lparr>o_sink = h_sink h, o_level = level, o_msg = text,
                         o_exc_info = exc_info\<rparr>)
                 (filter (\<lambda>h. level \<ge> h_level h) (l_handlers lg)))\<rparr>"

definition has_key :: "pyval \<Rightarrow> string \<Rightarrow> bool" where
  "has_key v k = (case v of PDict kvs \<Rightarrow> PStr k \<in> fst ` set kvs | _ \<Rightarrow> False)"

text \<open>
  \<open>Logger._log\<close> of the library: \<open>makeRecord\<close> refuses (KeyError) an \<open>extra\<close> that names
  an attribute of the record, then the record goes to the handlers.
\<close>

definition Logger__log :: "runtime \<Rightarrow> logger_obj \<Rightarrow> int \<Rightarrow> string \<Rightarrow> pyval list \<Rightarrow> bool
    \<Rightarrow> pyval \<Rightarrow> world \<Rightarrow> (error + unit) \<times> world" where
  "Logger__log rt lg level msg args exc_info ex w =
     (case ex of
        PNone \<Rightarrow> (Inr (), callHandlers rt lg level msg args exc_info w)
      | PDict kvs \<Rightarrow>
          (if list_ex (\<lambda>k. has_key ex k) (reserved rt) then (Inl KeyError, w)
           else (Inr (), callHandlers rt lg level msg args exc_info w))
      | _ \<Rightarrow> (Inl TypeError, w))"

section \<open>BorgLogger\<close>

text \<open>The class attribute \<open>_shared_state\<close> as the class body builds it from CONFIG.\<close>

definition shared_state0 :: "config \<Rightarrow> (string \<rightharpoonup> pyval)" where
  "shared_state0 c =
     [''name'' \<mapsto> PStr (LOGGERNAME c),
      ''main_logger'' \<mapsto> PNone,
      ''root_level'' \<mapsto> PInt (LOG_LEVEL c),
      ''log_file_path'' \<mapsto> PPath (LOG_PATH c),
      ''log_file_name'' \<mapsto> PPath \<lparr>anchor = [], segs = [LOG_FILE c @ ''.log'']\<rparr>]"

definition world0 :: "config \<Rightarrow> world" where
  "world0 c = \<lparr>shared_state = shared_state0 c, heap = [], opened = [], emitted = []\<rparr>"

definition file_fmt :: string where
  "file_fmt = ''%(asctime)s %(name)-12s %(levelname)-8s [%(filename)s:%(lineno)d] %(message)s''"

definition console_fmt :: string where
  "console_fmt = ''%(asctime)s %(levelname)-8s [%(filename)s:%(lineno)d] %(message)s''"

text \<open>
  \<open>_config_logger\<close>. The level is checked first; the file handler opens its file when it
  is created (OSError when it cannot); the new CustomLogger gets the console handler,
  then the file handler, and is stored under \<open>main_logger\<close>.
\<close>

definition config_logger :: "runtime \<Rightarrow> world \<Rightarrow> (error + unit) \<times> world" where
  "config_logger rt w =
     (case getitem (shared_state w) ''root_level'' of
        Inl e \<Rightarrow> (Inl e, w)
      | Inr root_level \<Rightarrow>
     (case checkLevel root_level of
        Inl e \<Rightarrow> (Inl e, w)
      | Inr lvl \<Rightarrow>
     (case getitem (shared_state w) ''log_file_path'' of
        Inl e \<Rightarrow> (Inl e, w)
      | Inr d \<Rightarrow>
     (case getitem (shared_state w) ''log_file_name'' of
        Inl e \<Rightarrow> (Inl e, w)
      | Inr n \<Rightarrow>
     (case truediv rt d n of
        Inl e \<Rightarrow> (Inl e, w)
      | Inr log_file_path \<Rightarrow>
     (if \<not> can_open rt log_file_path then (Inl OSError, w)
      else
        (let w1 = w\<lparr>opened := opened w @ [log_file_path]\<rparr>;
             file_handler = \<lparr>h_sink = File log_file_path, h_level = lvl,
                             h_fmt = file_fmt, h_datefmt = ''[%Y-%m-%d %H:%M:%S]''\<rparr>;
             console_handler = \<lparr>h_sink = Console, h_level = lvl,
                                h_fmt = console_fmt, h_datefmt = ''[%H:%M:%S]''\<rparr>
         in (case getitem (shared_state w1) ''name'' of
               Inl e \<Rightarrow> (Inl e, w1)
             | Inr name \<Rightarrow>
                 (let main_logger = \<lparr>l_name = name, l_level = lvl,
                                      l_handlers = [console_handler, file_handler]\<rparr>
                  in (Inr (),
                      w1\<lparr>heap := heap w1 @ [main_logger],
                         shared_state :=
                           (shared_state w1)(''main_logger'' \<mapsto> PLogger (length (heap w1)))\<rparr>))))))))))"

text \<open>
  The guard that \<open>__new__\<close>, \<open>get_logger\<close> and \<open>get_adapter\<close> each start with:
  \<open>if not cls._shared_state["main_logger"]: cls._config_logger()\<close>.
\<close>

definition config_if_absent :: "runtime \<Rightarrow> world \<Rightarrow> (error + unit) \<times> world" where
  "config_if_absent rt w =
     (case getitem (shared_state w) ''main_logger'' of
        Inl e \<Rightarrow> (Inl e, w)
      | Inr m \<Rightarrow> (if \<not> truthy m then config_logger rt w else (Inr (), w)))"

definition get_logger :: "runtime \<Rightarrow> world \<Rightarrow> (error + pyval) \<times> world" where
  "get_logger rt w =
     (case config_if_absent rt w of
        (Inl e, w') \<Rightarrow> (Inl e, w')
      | (Inr u, w') \<Rightarrow> (getitem (shared_state w') ''main_logger'', w'))"

definition get_adapter :: "runtime \<Rightarrow> pyval \<Rightarrow> world \<Rightarrow> (error + adapter) \<times> world" where
  "get_adapter rt context_info w =
     (case config_if_absent rt w of
        (Inl e, w') \<Rightarrow> (Inl e, w')
      | (Inr u, w') \<Rightarrow>
          (case getitem (shared_state w') ''main_logger'' of
             Inl e \<Rightarrow> (Inl e, w')
           | Inr m \<Rightarrow> (Inr \<lparr>a_logger = m, a_extra = context_info\<rparr>, w')))"

text \<open>
  The loop of \<open>__new__\<close> over \<open>config.items()\<close>: a key that is in \<open>_shared_state\<close> (whose
  keys are strings) is overwritten, any other key is skipped.
\<close>

fun merge_items :: "(string \<rightharpoonup> pyval) \<Rightarrow> (pyval \<times> pyval) list \<Rightarrow> (string \<rightharpoonup> pyval)" where
  "merge_items st [] = st"
| "merge_items st ((key, v) # kvs) =
     merge_items
       (case key of
          PStr k \<Rightarrow> (if st k \<noteq> None then st(k \<mapsto> v) else st)
        | _ \<Rightarrow> st)
       kvs"

definition BorgLogger_new :: "runtime \<Rightarrow> pyval \<Rightarrow> world \<Rightarrow> (error + unit) \<times> world" where
  "BorgLogger_new rt cfg w =
     (let w1 = (case cfg of
                  PDict kvs \<Rightarrow> w\<lparr>shared_state := merge_items (shared_state w) kvs\<rparr>
                | _ \<Rightarrow> w)
      in config_if_absent rt w1)"

section \<open>CustomLogger and ContextAdapter\<close>

text \<open>
  \<open>CustomLogger._log\<close>. \<open>exc\<close> is what \<open>sys.exc_info()\<close> returns at the call, \<open>args\<close>
  the positional arguments of the logging call, \<open>ex\<close> the argument \<open>extra\<close>. The detail
  is put into \<open>msg\<close>, the format string, and \<open>args\<close> are handed on as they came.
\<close>

definition CustomLogger__log :: "runtime \<Rightarrow> exc_info option \<Rightarrow> logger_obj \<Rightarrow> int \<Rightarrow> string
    \<Rightarrow> pyval list \<Rightarrow> bool \<Rightarrow> pyval \<Rightarrow> world \<Rightarrow> (error + unit) \<times> world" where
  "CustomLogger__log rt exc lg level msg args exc_info ex w =
     (if has_key ex ''is_exception''
      then (case detailed_exception (ROOT_DIR rt) (sep rt) exc of
              Inl e \<Rightarrow> (Inl e, w)
            | Inr d \<Rightarrow> Logger__log rt lg level (msg @ '' ['' @ d @ '']'') args exc_info ex w)
      else Logger__log rt lg level msg args exc_info ex w)"

text \<open>\<open>Logger.log\<close> and the leveled methods of the library test the level, then call \<open>_log\<close>.\<close>

definition Logger_log :: "runtime \<Rightarrow> exc_info option \<Rightarrow> pyval \<Rightarrow> int \<Rightarrow> string
    \<Rightarrow> pyval list \<Rightarrow> bool \<Rightarrow> pyval option \<Rightarrow> world \<Rightarrow> (error + unit) \<times> world" where
  "Logger_log rt exc self level msg args exc_info kw_extra w =
     (case deref w self of
        Inl e \<Rightarrow> (Inl e, w)
      | Inr lg \<Rightarrow>
          (if isEnabledFor lg level
           then CustomLogger__log rt exc lg level msg args exc_info
                  (case kw_extra of None \<Rightarrow> PNone | Some x \<Rightarrow> x) w
           else (Inr (), w)))"

text \<open>
  The two lines both \<open>exception\<close> methods start with: an absent \<open>extra\<close> becomes an empty
  dict, and the key \<open>is_exception\<close> is stored in it (TypeError when \<open>extra\<close> was passed
  and is not a dict).
\<close>

fun dict_set :: "(pyval \<times> pyval) list \<Rightarrow> pyval \<Rightarrow> pyval \<Rightarrow> (pyval \<times> pyval) list" where
  "dict_set [] k v = [(k, v)]"
| "dict_set ((k', v') # kvs) k v =
     (if k' = k then (k, v) # kvs else (k', v') # dict_set kvs k v)"

definition flag_exception :: "pyval option \<Rightarrow> error + pyval" where
  "flag_exception kw_extra =
     (case (case kw_extra of None \<Rightarrow> PDict [] | Some x \<Rightarrow> x) of
        PDict kvs \<Rightarrow> Inr (PDict (dict_set kvs (PStr ''is_exception'') (PBool True)))
      | _ \<Rightarrow> Inl TypeError)"

text \<open>
  \<open>CustomLogger.exception(msg, *args, exc_info=True, **kwargs)\<close>: the flag is set and
  the call goes to \<open>Logger.error\<close> with the same message and arguments.
\<close>

definition CustomLogger_exception :: "runtime \<Rightarrow> exc_info option \<Rightarrow> pyval \<Rightarrow> string
    \<Rightarrow> pyval list \<Rightarrow> bool \<Rightarrow> pyval option \<Rightarrow> world \<Rightarrow> (error + unit) \<times> world" where
  "CustomLogger_exception rt exc self msg args exc_info kw_extra w =
     (case flag_exception kw_extra of
        Inl e \<Rightarrow> (Inl e, w)
      | Inr ex \<Rightarrow> Logger_log rt exc self 40 msg args exc_info (Some ex) w)"

text \<open>
  \<open>LoggerAdapter.log\<close> of the library: when the logger is enabled for the level, the
  message goes through \<open>process\<close> and then to \<open>Logger.log\<close>. The leveled methods
  (\<open>debug\<close> 10, \<open>info\<close> 20, \<open>warning\<close> 30, \<open>error\<close> 40) call it with their level.
\<close>

definition Adapter_log :: "runtime \<Rightarrow> exc_info option \<Rightarrow> adapter \<Rightarrow> int \<Rightarrow> string
    \<Rightarrow> pyval list \<Rightarrow> bool \<Rightarrow> pyval option \<Rightarrow> world \<Rightarrow> (error + unit) \<times> world" where
  "Adapter_log rt exc self level msg args exc_info kw_extra w =
     (case deref w (a_logger self) of
        Inl e \<Rightarrow> (Inl e, w)
      | Inr lg \<Rightarrow>
          (if isEnabledFor lg level
           then (case process (gen_addr rt) self msg kw_extra of
                   (msg', kw') \<Rightarrow>
                     Logger_log rt exc (a_logger self) level msg' args exc_info kw' w)
           else (Inr (), w)))"

text \<open>
  \<open>ContextAdapter.exception(msg, *args, exc_info=True, **kwargs)\<close>: the flag is set and
  the call goes to \<open>LoggerAdapter.exception\<close>, that is to \<open>log\<close> at level ERROR, with
  the same message and arguments.
\<close>

definition ContextAdapter_exception :: "runtime \<Rightarrow> exc_info option \<Rightarrow> adapter \<Rightarrow> string
    \<Rightarrow> pyval list \<Rightarrow> bool \<Rightarrow> pyval option \<Rightarrow> world \<Rightarrow> (error + unit) \<times> world" where
  "ContextAdapter_exception rt exc self msg args exc_info kw_extra w =
     (case flag_exception kw_extra of
        Inl e \<Rightarrow> (Inl e, w)
      | Inr ex \<Rightarrow> Adapter_log rt exc self 40 msg args exc_info (Some ex) w)"

section \<open>Acquisition sequences\<close>

text \<open>
  A caller acquires the logger with \<open>get_logger()\<close> or an adapter with
  \<open>get_adapter(context)\<close>; \<open>underlying\<close> is the logger object the result refers to.
\<close>

datatype acq = GetLogger | GetAdapter pyval

datatype acq_result = ALogger pyval | AAdapter adapter

definition underlying :: "acq_result \<Rightarrow> pyval" where
  "underlying r = (case r of ALogger v \<Rightarrow> v | AAdapter a \<Rightarrow> a_logger a)"

definition acquire :: "runtime \<Rightarrow> acq \<Rightarrow> world \<Rightarrow> (error + acq_result) \<times> world" where
  "acquire rt a w =
     (case a of
        GetLogger \<Rightarrow>
          (case get_logger rt w of
             (Inl e, w') \<Rightarrow> (Inl e, w')
           | (Inr v, w') \<Rightarrow> (Inr (ALogger v), w'))
      | GetAdapter c \<Rightarrow>
          (case get_adapter rt c w of
             (Inl e, w') \<Rightarrow> (Inl e, w')
           | (Inr ad, w') \<Rightarrow> (Inr (AAdapter ad), w')))"

text \<open>The calls of a list, one after the other, each with its own result.\<close>

fun acquire_all :: "runtime \<Rightarrow> acq list \<Rightarrow> world \<Rightarrow> (error + acq_result) list \<times> world" where
  "acquire_all rt [] w = ([], w)"
| "acquire_all rt (a # as) w =
     (case acquire rt a w of
        (r, w') \<Rightarrow> (case acquire_all rt as w' of (rs, w'') \<Rightarrow> (r # rs, w'')))"

text \<open>What a call returns when the stored logger is \<open>m\<close>.\<close>

definition result_for :: "acq \<Rightarrow> pyval \<Rightarrow> acq_result" where
  "result_for a m =
     (case a of GetLogger \<Rightarrow> ALogger m | GetAdapter c \<Rightarrow> AAdapter \<lparr>a_logger = m, a_extra = c\<rparr>)"

text \<open>A key of a configuration mapping that \<open>__new__\<close> merges into the state \<open>st\<close>.\<close>

definition recognised :: "(string \<rightharpoonup> pyval) \<Rightarrow> pyval \<times> pyval \<Rightarrow> bool" where
  "recognised st kv = (case fst kv of PStr k \<Rightarrow> st k \<noteq> None | _ \<Rightarrow> False)"

text \<open>
  A configuration override, as the constructor is given one: a mapping (its keys distinct)
  over the configuration keys \<open>name\<close>, \<open>root_level\<close>, \<open>log_file_path\<close> and
  \<open>log_file_name\<close>, with or without keys the shared state does not have. It does not
  name \<open>main_logger\<close>, which is the reference to the constructed logger and no
  configuration.
\<close>

definition configuration_override :: "(pyval \<times> pyval) list \<Rightarrow> bool" where
  "configuration_override kvs =
     (distinct (map fst kvs) \<and> PStr ''main_logger'' \<notin> fst ` set kvs)"

section \<open>Threads in get_logger\<close>

text \<open>
  \<open>get_logger\<close> takes no lock, so another thread can run between its steps. A thread
  inside \<open>get_logger\<close> is about to evaluate the guard
  \<open>not cls._shared_state["main_logger"]\<close>, or has found it true and is about to call
  \<open>_config_logger\<close>, or is about to read \<open>_shared_state["main_logger"]\<close> for its
  result, or has returned or raised.
\<close>

datatype pc = AtGuard | AtConstruct | AtReturn | Returned pyval | Raised error

definition thread_step :: "runtime \<Rightarrow> pc \<Rightarrow> world \<Rightarrow> pc \<times> world" where
  "thread_step rt p w =
     (case p of
        AtGuard \<Rightarrow>
          (case getitem (shared_state w) ''main_logger'' of
             Inl e \<Rightarrow> (Raised e, w)
           | Inr m \<Rightarrow> (if \<not> truthy m then AtConstruct else AtReturn, w))
      | AtConstruct \<Rightarrow>
          (case config_logger rt w of
             (Inl e, w') \<Rightarrow> (Raised e, w')
           | (Inr u, w') \<Rightarrow> (AtReturn, w'))
      | AtReturn \<Rightarrow>
          (case getitem (shared_state w) ''main_logger'' of
             Inl e \<Rightarrow> (Raised e, w)
           | Inr m \<Rightarrow> (Returned m, w))
      | _ \<Rightarrow> (p, w))"

text \<open>
  A schedule names, step by step, the thread that runs next; a thread that is done, or a
  number that names no thread, leaves everything as it is.
\<close>

fun run_schedule :: "runtime \<Rightarrow> nat list \<Rightarrow> pc list \<times> world \<Rightarrow> pc list \<times> world" where
  "run_schedule rt [] s = s"
| "run_schedule rt (i # is) (ts, w) =
     (if i < length ts
      then (case thread_step rt (ts ! i) w of
              (p, w') \<Rightarrow> run_schedule rt is (ts[i := p], w'))
      else run_schedule rt is (ts, w))"

section \<open>A concrete run\<close>

text \<open>
  The operator \<open>%\<close> as far as the concrete run needs it: the directives \<open>%s\<close> (of a
  string, an int, a bool or None) and \<open>%%\<close> are rendered; a missing argument, an
  argument left over, an incomplete directive, and every directive or argument beyond
  these is reported as an error (Python renders more of them; the run uses none).
\<close>

definition prepend :: "string \<Rightarrow> error + string \<Rightarrow> error + string" where
  "prepend s r = (case r of Inl e \<Rightarrow> Inl e | Inr t \<Rightarrow> Inr (s @ t))"

fun demo_percent :: "string \<Rightarrow> pyval list \<Rightarrow> error + string" where
  "demo_percent [] [] = Inr []"
| "demo_percent [] (a # as) = Inl TypeError"
| "demo_percent [c] args =
     (if c = CHR ''%'' then Inl ValueError
      else (case args of [] \<Rightarrow> Inr [c] | a # as \<Rightarrow> Inl TypeError))"
| "demo_percent (c # d # cs) args =
     (if c \<noteq> CHR ''%'' then prepend [c] (demo_percent (d # cs) args)
      else if d = CHR ''%'' then prepend ''%'' (demo_percent cs args)
      else if d = CHR ''s'' then
        (case args of
           [] \<Rightarrow> Inl TypeError
         | PStr s # as \<Rightarrow> prepend s (demo_percent cs as)
         | PInt i # as \<Rightarrow> prepend (str_int i) (demo_percent cs as)
         | PBool b # as \<Rightarrow> prepend (if b then ''True'' else ''False'') (demo_percent cs as)
         | PNone # as \<Rightarrow> prepend ''None'' (demo_percent cs as)
         | a # as \<Rightarrow> Inl TypeError)
      else Inl ValueError)"

text \<open>
  A project at \<open>/proj\<close> on a platform with separator \<open>/\<close>, every file writable, started
  as \<open>python example.py\<close>; \<open>demo_world\<close> is the state after the first \<open>get_logger()\<close>.
\<close>

definition demo_rt :: runtime where
  "demo_rt =
     \<lparr>ROOT_DIR = \<lparr>anchor = ''/'', segs = [''proj'']\<rparr>, sep = ''/'',
      to_path = (\<lambda>s. \<lparr>anchor = [], segs = [s]\<rparr>), can_open = (\<lambda>p. True),
      gen_addr = ''0x7f3a5c1d2e40'',
      reserved = [''message'', ''asctime'', ''name'', ''msg'', ''args'', ''levelname'',
                  ''levelno'', ''pathname'', ''filename'', ''module'', ''exc_info'',
                  ''exc_text'', ''stack_info'', ''lineno'', ''funcName'', ''created'',
                  ''msecs'', ''relativeCreated'', ''thread'', ''threadName'',
                  ''processName'', ''process''],
      percent = demo_percent\<rparr>"

definition demo_config :: config where
  "demo_config = CONFIG [''example.py''] [] (ROOT_DIR demo_rt)"

definition demo_world :: world where
  "demo_world = snd (get_logger demo_rt (world0 demo_config))"

definition demo_bad_level :: world where
  "demo_bad_level =
     (world0 demo_config)\<lparr>shared_state :=
        (shared_state0 demo_config)(''root_level'' \<mapsto> PStr ''LOUD'')\<rparr>"

text \<open>
  The entry of the traceback that belongs to the frame which raised: the last one of the
  chain.
\<close>

definition innermost :: "exc_info \<Rightarrow> tb_entry" where
  "innermost e = last (exc_tb e # exc_tb_next e)"

text \<open>
  \<open>1 / 0\<close> on line 105 of \<open>/proj/lib/foo.py\<close>, caught in the function that evaluates it;
  and the same division on line 7 of \<open>/proj/lib/foo.py\<close>, in a function called from
  line 12 of \<open>/proj/app/main.py\<close>, where it is caught.
\<close>

definition demo_zde :: exc_info where
  "demo_zde =
     \<lparr>exc_type = ''ZeroDivisionError'', exc_value = ''division by zero'',
      exc_doc = Some ''Second argument to a division or modulo operation was zero.'',
      exc_tb = \<lparr>tb_file = \<lparr>anchor = ''/'', segs = [''proj'', ''lib'', ''foo.py'']\<rparr>,
                 tb_lineno = 105\<rparr>,
      exc_tb_next = []\<rparr>"

definition demo_nested :: exc_info where
  "demo_nested =
     \<lparr>exc_type = ''ZeroDivisionError'', exc_value = ''division by zero'',
      exc_doc = Some ''Second argument to a division or modulo operation was zero.'',
      exc_tb = \<lparr>tb_file = \<lparr>anchor = ''/'', segs = [''proj'', ''app'', ''main.py'']\<rparr>,
                 tb_lineno = 12\<rparr>,
      exc_tb_next = [\<lparr>tb_file = \<lparr>anchor = ''/'', segs = [''proj'', ''lib'', ''foo.py'']\<rparr>,
                      tb_lineno = 7\<rparr>]\<rparr>"

section \<open>Context rendering\<close>

lemma process_mapping_ignores_items:
  "process addr \<lparr>a_logger = l, a_extra = PDict kvs\<rparr> msg kw =
   process addr \<lparr>a_logger = l, a_extra = PDict []\<rparr> msg kw"
  by (simp add: process_def)

text \<open>
  C1. For a mapping context the message should carry the \<open>key: value\<close> pairs, joined by
  commas, in brackets before the message. The code takes \<open>str\<close> of the generator object
  instead of joining what it yields: with context \<open>{"req": "42"}\<close> and message
  \<open>hello\<close> (the generator printed at address \<open>0x7f3a5c1d2e40\<close>) the message is the
  generator's description without its last two characters, and \<open>[req: 42] hello\<close>
  does not occur in it.
\<close>

theorem process_mapping_req_42:
  "fst (process ''0x7f3a5c1d2e40''
         \<lparr>a_logger = PLogger 0, a_extra = PDict [(PStr ''req'', PStr ''42'')]\<rparr> ''hello'' ())
     = ''[<generator object ContextAdapter.process.<locals>.<genexpr> at 0x7f3a5c1d2e4] hello''
   \<and> \<not> sublist ''[req: 42] hello''
         (fst (process ''0x7f3a5c1d2e40''
           \<lparr>a_logger = PLogger 0, a_extra = PDict [(PStr ''req'', PStr ''42'')]\<rparr> ''hello'' ()))"
  by code_simp

text \<open>
  C2. A string context is put in brackets before the message; with no context, or a
  context that is neither a mapping nor a string, the message and the keyword arguments
  are returned as they came.
\<close>

theorem process_string_or_other:
  "(a_extra self = PStr s \<longrightarrow> process addr self msg kw = (''['' @ s @ ''] '' @ msg, kw)) \<and>
   ((\<forall>kvs. a_extra self \<noteq> PDict kvs) \<and> (\<forall>t. a_extra self \<noteq> PStr t)
      \<longrightarrow> process addr self msg kw = (msg, kw))"
  by (cases "a_extra self") (simp_all add: process_def)

theorem process_string_or_other_witness:
  "process ''0x7f3a5c1d2e40'' \<lparr>a_logger = PLogger 0, a_extra = PStr ''db''\<rparr> ''hello'' ()
     = (''[db] hello'', ()) \<and>
   process ''0x7f3a5c1d2e40'' \<lparr>a_logger = PLogger 0, a_extra = PNone\<rparr> ''hello'' ()
     = (''hello'', ()) \<and>
   process ''0x7f3a5c1d2e40'' \<lparr>a_logger = PLogger 0, a_extra = PList [PStr ''db'']\<rparr> ''hello'' ()
     = (''hello'', ())"
  using process_string_or_other [of "\<lparr>a_logger = PLogger 0, a_extra = PStr ''db''\<rparr>" "''db''"
          "''0x7f3a5c1d2e40''" "''hello''" "()"]
        process_string_or_other [of "\<lparr>a_logger = PLogger 0, a_extra = PNone\<rparr>" "''db''"
          "''0x7f3a5c1d2e40''" "''hello''" "()"]
        process_string_or_other [of "\<lparr>a_logger = PLogger 0, a_extra = PList [PStr ''db'']\<rparr>" "''db''"
          "''0x7f3a5c1d2e40''" "''hello''" "()"]
  by simp

section \<open>Merging a configuration mapping\<close>

lemma dom_merge_items: "dom (merge_items st kvs) = dom st"
proof (induction kvs arbitrary: st)
  case Nil
  then show ?case by simp
next
  case (Cons a kvs)
  then show ?case by (cases a; cases "fst a") (auto split: pyval.splits)
qed

lemma merge_items_None: "merge_items st kvs k = None \<longleftrightarrow> st k = None"
  by (metis dom_merge_items domIff)

lemma recognised_step:
  "recognised (case key of PStr k \<Rightarrow> (if st k \<noteq> None then st(k \<mapsto> v) else st) | _ \<Rightarrow> st)
     = recognised st"
  by (rule ext) (auto simp: recognised_def split: pyval.splits)

lemma merge_items_filter: "merge_items st kvs = merge_items st (filter (recognised st) kvs)"
proof (induction kvs arbitrary: st)
  case Nil
  then show ?case by simp
next
  case (Cons a kvs)
  obtain key v where a: "a = (key, v)" by (cases a)
  let ?st = "case key of PStr k \<Rightarrow> (if st k \<noteq> None then st(k \<mapsto> v) else st) | _ \<Rightarrow> st"
  have step: "merge_items st (a # kvs) = merge_items ?st (filter (recognised st) kvs)"
    using Cons.IH [of ?st] by (simp add: a recognised_step)
  show ?case
  proof (cases "recognised st a")
    case True
    then show ?thesis using step by (simp add: a)
  next
    case False
    then have "?st = st" by (auto simp: a recognised_def split: pyval.splits)
    then show ?thesis using step False by simp
  qed
qed

lemma dom_config_logger:
  "shared_state w ''main_logger'' \<noteq> None \<Longrightarrow>
   dom (shared_state (snd (config_logger rt w))) = dom (shared_state w)"
  by (auto simp: config_logger_def Let_def split: sum.splits)

lemma dom_config_if_absent:
  "dom (shared_state (snd (config_if_absent rt w))) = dom (shared_state w)"
proof (cases "shared_state w ''main_logger''")
  case None
  then show ?thesis by (simp add: config_if_absent_def getitem_def)
next
  case (Some m)
  then show ?thesis
    using dom_config_logger [of w rt] by (simp add: config_if_absent_def getitem_def)
qed

lemma merge_items_value:
  "merge_items st kvs k =
     (if st k = None then None
      else (case map_of (rev kvs) (PStr k) of None \<Rightarrow> st k | Some v \<Rightarrow> Some v))"
proof (induction kvs arbitrary: st)
  case Nil
  then show ?case by simp
next
  case (Cons a kvs)
  obtain key v' where a: "a = (key, v')" by (cases a)
  let ?st = "case key of PStr j \<Rightarrow> (if st j \<noteq> None then st(j \<mapsto> v') else st) | _ \<Rightarrow> st"
  have step: "merge_items st (a # kvs) k = merge_items ?st kvs k"
    by (simp add: a)
  have last: "map_of (rev (a # kvs)) (PStr k)
      = (case map_of (rev kvs) (PStr k) of
           None \<Rightarrow> (if key = PStr k then Some v' else None)
         | Some v \<Rightarrow> Some v)"
    by (auto simp: a map_add_def split: option.splits)
  show ?case
  proof (cases "key = PStr k")
    case True
    then have "?st k = (if st k = None then None else Some v')" by simp
    then show ?thesis
      unfolding step Cons.IH [of ?st] last using True by (simp split: option.splits)
  next
    case False
    then have "?st k = st k" by (cases key) simp_all
    then show ?thesis
      unfolding step Cons.IH [of ?st] last using False by (simp split: option.splits)
  qed
qed

lemma config_logger_other_keys:
  "k \<noteq> ''main_logger'' \<Longrightarrow> shared_state (snd (config_logger rt w)) k = shared_state w k"
  by (auto simp: config_logger_def Let_def split: sum.splits)

lemma config_if_absent_other_keys:
  "k \<noteq> ''main_logger'' \<Longrightarrow> shared_state (snd (config_if_absent rt w)) k = shared_state w k"
  by (simp add: config_if_absent_def config_logger_other_keys split: sum.splits)

text \<open>
  C10. The keys of the shared state are the five named ones. Merging a configuration
  mapping leaves the set of keys as it was. A key of the shared state takes the value the
  mapping gives it (the last one, should the list repeat a key) and keeps its own value
  when the mapping does not name it; a key that is not in the shared state is never
  stored. The entries with such keys play no part: the merge, and the whole constructor
  call, give the same result and the same state as with those entries removed. After the
  constructor every key but \<open>main_logger\<close> holds the merged value; it never adds or
  removes a key.
\<close>

theorem unrecognised_keys_ignored:
  "dom (shared_state0 c)
     = {''name'', ''main_logger'', ''root_level'', ''log_file_path'', ''log_file_name''} \<and>
   dom (merge_items st kvs) = dom st \<and>
   merge_items st kvs k =
     (if st k = None then None
      else (case map_of (rev kvs) (PStr k) of None \<Rightarrow> st k | Some v \<Rightarrow> Some v)) \<and>
   merge_items st kvs = merge_items st (filter (recognised st) kvs) \<and>
   BorgLogger_new rt (PDict kvs) w
     = BorgLogger_new rt (PDict (filter (recognised (shared_state w)) kvs)) w \<and>
   (k = ''main_logger'' \<or>
    shared_state (snd (BorgLogger_new rt (PDict kvs) w)) k = merge_items (shared_state w) kvs k) \<and>
   dom (shared_state (snd (BorgLogger_new rt cfg w))) = dom (shared_state w)"
proof -
  have keys: "dom (shared_state0 c)
     = {''name'', ''main_logger'', ''root_level'', ''log_file_path'', ''log_file_name''}"
    by (auto simp: shared_state0_def)
  have filt: "BorgLogger_new rt (PDict kvs) w
     = BorgLogger_new rt (PDict (filter (recognised (shared_state w)) kvs)) w"
    using merge_items_filter [of "shared_state w" kvs] by (simp add: BorgLogger_new_def)
  have stored: "k = ''main_logger'' \<or>
      shared_state (snd (BorgLogger_new rt (PDict kvs) w)) k = merge_items (shared_state w) kvs k"
  proof (cases "k = ''main_logger''")
    case True
    then show ?thesis by simp
  next
    case False
    then show ?thesis
      using config_if_absent_other_keys [of k rt "w\<lparr>shared_state := merge_items (shared_state w) kvs\<rparr>"]
      by (simp add: BorgLogger_new_def)
  qed
  have frame: "dom (shared_state (snd (BorgLogger_new rt cfg w))) = dom (shared_state w)"
    by (cases cfg) (simp_all add: BorgLogger_new_def dom_config_if_absent dom_merge_items)
  show ?thesis
    using keys filt stored frame dom_merge_items [of st kvs] merge_items_filter [of st kvs]
      merge_items_value [of st kvs k]
    by simp
qed

theorem unrecognised_keys_ignored_witness:
  "map (merge_items (shared_state0 demo_config)
          [(PStr ''root_level'', PStr ''DEBUG''), (PStr ''colour'', PStr ''red''),
           (PInt 7, PStr ''seven''), (PStr ''name'', PStr ''app'')])
     [''name'', ''main_logger'', ''root_level'', ''colour'']
   = [Some (PStr ''app''), Some PNone, Some (PStr ''DEBUG''), None]"
proof -
  let ?kvs = "[(PStr ''root_level'', PStr ''DEBUG''), (PStr ''colour'', PStr ''red''),
               (PInt 7, PStr ''seven''), (PStr ''name'', PStr ''app'')]"
  have v: "merge_items (shared_state0 demo_config) ?kvs k =
     (if shared_state0 demo_config k = None then None
      else (case map_of (rev ?kvs) (PStr k) of
              None \<Rightarrow> shared_state0 demo_config k | Some v \<Rightarrow> Some v))" for k
    using unrecognised_keys_ignored [of demo_config "shared_state0 demo_config" ?kvs k
        demo_rt "world0 demo_config" PNone]
    by blast
  show ?thesis
    unfolding list.map v by (simp add: shared_state0_def)
qed

section \<open>Failing fast on an invalid level\<close>

lemma config_logger_invalid_level:
  "shared_state w ''root_level'' = Some rl \<Longrightarrow> checkLevel rl = Inl e \<Longrightarrow>
   config_logger rt w = (Inl e, w)"
  by (simp add: config_logger_def getitem_def)

lemma checkLevel_errors: "checkLevel rl = Inl e \<Longrightarrow> e = ValueError \<or> e = TypeError"
  by (cases rl) (auto split: option.splits)

text \<open>
  C5. With no logger stored yet and an invalid level in the shared state, each
  acquisition call (and the constructor) raises the error of the level check, ValueError
  or TypeError, and leaves the whole state as it was: no logger object, no handler and no
  opened file, and the logger reference still absent.
\<close>

theorem invalid_level_fails_fast:
  assumes "shared_state w ''main_logger'' = Some m" and "\<not> truthy m"
    and "shared_state w ''root_level'' = Some rl" and "checkLevel rl = Inl e"
  shows "get_logger rt w = (Inl e, w) \<and> get_adapter rt c w = (Inl e, w) \<and>
         BorgLogger_new rt PNone w = (Inl e, w) \<and> (e = ValueError \<or> e = TypeError)"
proof -
  have "config_if_absent rt w = (Inl e, w)"
    using assms by (simp add: config_if_absent_def getitem_def config_logger_invalid_level)
  then show ?thesis
    using checkLevel_errors [OF assms(4)]
    by (simp add: get_logger_def get_adapter_def BorgLogger_new_def)
qed

theorem invalid_level_fails_fast_witness:
  "shared_state demo_bad_level ''main_logger'' = Some PNone \<and> \<not> truthy PNone \<and>
   shared_state demo_bad_level ''root_level'' = Some (PStr ''LOUD'') \<and>
   checkLevel (PStr ''LOUD'') = Inl ValueError \<and>
   get_logger demo_rt demo_bad_level = (Inl ValueError, demo_bad_level) \<and>
   get_adapter demo_rt (PStr ''db'') demo_bad_level = (Inl ValueError, demo_bad_level) \<and>
   BorgLogger_new demo_rt PNone demo_bad_level = (Inl ValueError, demo_bad_level)"
proof -
  have h1: "shared_state demo_bad_level ''main_logger'' = Some PNone"
    by (simp add: demo_bad_level_def world0_def shared_state0_def)
  have h2: "\<not> truthy PNone" by simp
  have h3: "shared_state demo_bad_level ''root_level'' = Some (PStr ''LOUD'')"
    by (simp add: demo_bad_level_def)
  have h4: "checkLevel (PStr ''LOUD'') = Inl ValueError"
    by (simp add: nameToLevel_def)
  show ?thesis
    using h1 h2 h3 h4
      invalid_level_fails_fast [OF h1 h2 h3 h4, of demo_rt "PStr ''db''"]
    by simp
qed

section \<open>Exception formatting\<close>

lemma takeWhile_until:
  "takeWhile (\<lambda>x. x \<noteq> c) (name @ c # rest) = takeWhile (\<lambda>x. x \<noteq> c) name"
  by (induction name) auto

lemma split_max_type_str:
  "py_index (split_max (CHR 0x27) 2 (type_str name)) 1
     = Inr (takeWhile (\<lambda>x. x \<noteq> CHR 0x27) name)"
proof -
  have two: "(2::nat) = Suc (Suc 0)" by simp
  show ?thesis
    unfolding type_str_def two
    by (cases "CHR 0x27 \<in> set name") (simp_all add: py_index_def takeWhile_until)
qed

lemma customFormatException_ok:
  "customFormatException e
     = Inr (tb_lineno (exc_tb e), takeWhile (\<lambda>x. x \<noteq> CHR 0x27) (exc_type e),
            exc_value e, exc_doc e)"
  by (simp add: customFormatException_def split_max_type_str)

lemma takeWhile_no_quote: "c \<notin> set name \<Longrightarrow> takeWhile (\<lambda>x. x \<noteq> c) name = name"
  by (induction name) auto

lemma detailed_exception_eq:
  assumes "err_file_of root sp (tb_file (exc_tb e)) = Inr f"
  shows "detailed_exception root sp (Some e)
    = Inr (''Exception in '' @ f @ '':'' @ str_int (tb_lineno (exc_tb e)) @ '' - ''
           @ takeWhile (\<lambda>x. x \<noteq> CHR 0x27) (exc_type e) @ '' - '' @ exc_value e @ '' - ''
           @ str_opt (exc_doc e))"
  using assms by (simp add: detailed_exception_def customFormatException_ok)

lemma py_index_last: "py_index (xs @ [b]) (- 1) = Inr b"
  by (simp add: py_index_def)

lemma py_index_second_last: "py_index (xs @ [a, b]) (- 2) = Inr a"
  by (simp add: py_index_def)

lemma rel_file_last_two:
  assumes "parts p = pre @ [folder, fname]"
  shows "rel_file p = Inr (folder @ ''/'' @ fname)"
proof -
  have "py_index (parts p) (- 2) = Inr folder"
    using py_index_second_last [of pre folder fname] assms by simp
  moreover have "py_index (parts p) (- 1) = Inr fname"
    using py_index_last [of "pre @ [folder]" fname] assms by simp
  ultimately show ?thesis by (simp add: rel_file_def)
qed

lemma err_file_of_under_root:
  assumes "anchor root \<noteq> []" and "parts p = parts root @ ds @ [fname]"
  shows "err_file_of root sp p = Inr (last (parts root @ ds) @ ''/'' @ fname)"
proof -
  have ne: "parts root @ ds \<noteq> []" using assms(1) by (simp add: parts_def)
  then have "parts p = butlast (parts root @ ds) @ [last (parts root @ ds), fname]"
    using assms(2) by (metis append_butlast_last_id append_assoc append_Cons append_Nil)
  then have "rel_file p = Inr (last (parts root @ ds) @ ''/'' @ fname)"
    by (rule rel_file_last_two)
  moreover have "relative_to_ok p root"
    using assms by (simp add: relative_to_ok_def parts_def)
  ultimately show ?thesis by (simp add: err_file_of_def)
qed

lemma Logger_log_on:
  assumes "deref w self = Inr lg"
  shows "Logger_log rt exc self level msg args ei kw w
    = (if isEnabledFor lg level
       then CustomLogger__log rt exc lg level msg args ei
              (case kw of None \<Rightarrow> PNone | Some x \<Rightarrow> x) w
       else (Inr (), w))"
  using assms by (simp add: Logger_log_def)

lemma dict_set_member: "(k, v) \<in> set (dict_set kvs k v)"
  by (induction kvs) auto

lemma dict_set_key: "k \<in> fst ` set (dict_set kvs k v)"
  using dict_set_member [of k v kvs] by (metis fst_conv image_eqI)

lemma has_key_dict_set: "has_key (PDict (dict_set kvs (PStr k) v)) k"
  by (simp add: has_key_def dict_set_key)

lemma flag_exception_Inr:
  assumes "flag_exception kw = Inr ex"
  shows "has_key ex ''is_exception'' \<and> (\<exists>kvs. ex = PDict kvs)"
proof (cases "case kw of None \<Rightarrow> PDict [] | Some x \<Rightarrow> x")
  case (PDict kvs)
  then have "ex = PDict (dict_set kvs (PStr ''is_exception'') (PBool True))"
    using assms by (simp add: flag_exception_def)
  then show ?thesis by (simp add: has_key_dict_set)
qed (use assms in \<open>simp_all add: flag_exception_def\<close>)

lemma Logger__log_accepts:
  assumes "ex = PDict kvs" and "\<not> list_ex (has_key ex) (reserved rt)"
  shows "Logger__log rt lg level msg args ei ex w
    = (Inr (), callHandlers rt lg level msg args ei w)"
  using assms by (simp add: Logger__log_def)

lemma CustomLogger__log_flagged:
  assumes "has_key ex ''is_exception''"
    and "detailed_exception (ROOT_DIR rt) (sep rt) exc = Inr d"
  shows "CustomLogger__log rt exc lg level msg args ei ex w
    = Logger__log rt lg level (msg @ '' ['' @ d @ '']'') args ei ex w"
  using assms by (simp add: CustomLogger__log_def)

lemma process_fst:
  "process addr self msg kw = (fst (process addr self msg ()), kw)"
  by (cases "a_extra self") (simp_all add: process_def Let_def)

lemma Adapter_log_plain:
  assumes "deref w (a_logger self) = Inr lg" and "isEnabledFor lg level"
  shows "Adapter_log rt exc self level msg args ei None w
    = (Inr (), callHandlers rt lg level (fst (process (gen_addr rt) self msg ())) args ei w)"
  using assms process_fst [of "gen_addr rt" self msg "None :: pyval option"]
  by (simp add: Adapter_log_def Logger_log_def CustomLogger__log_def has_key_def
      Logger__log_def)

text \<open>
  C6. With an exception being handled and a file that can be shown, the formatter
  returns \<open>Exception in <file>:<line> - <type-name> - <exception-text> - <type-docstring>\<close>;
  the type name is the text between the first two apostrophes of \<open>str(type)\<close>, the name
  of the type itself when it holds no apostrophe. In every flagged call, whatever its
  positional arguments and its \<open>extra\<close> dictionary (one the library accepts), \<open>_log\<close>
  hands the library the message it was given followed by a space and that string in
  brackets, with the arguments as they came. So does \<open>exception\<close> on a logger that is
  enabled for ERROR, and \<open>exception\<close> on an adapter bound to it, where the message is
  the one \<open>process\<close> returned; on a logger that is not enabled nothing is logged. A call
  without arguments is rendered as exactly that text; with arguments the library renders
  the whole of it with \<open>%\<close>, so that a \<open>%\<close> in the detail is read as a directive.
\<close>

theorem exception_detail_appended:
  assumes "err_file_of (ROOT_DIR rt) (sep rt) (tb_file (exc_tb e)) = Inr f"
    and "d = ''Exception in '' @ f @ '':'' @ str_int (tb_lineno (exc_tb e)) @ '' - ''
           @ takeWhile (\<lambda>x. x \<noteq> CHR 0x27) (exc_type e) @ '' - '' @ exc_value e @ '' - ''
           @ str_opt (exc_doc e)"
    and "flag_exception kw = Inr ex" and "\<not> list_ex (has_key ex) (reserved rt)"
    and "deref w self = Inr lg"
  shows "detailed_exception (ROOT_DIR rt) (sep rt) (Some e) = Inr d \<and>
         (if CHR 0x27 \<in> set (exc_type e) then True
          else takeWhile (\<lambda>x. x \<noteq> CHR 0x27) (exc_type e) = exc_type e) \<and>
         CustomLogger__log rt (Some e) lg level msg args ei ex w
           = (Inr (), callHandlers rt lg level (msg @ '' ['' @ d @ '']'') args ei w) \<and>
         CustomLogger_exception rt (Some e) self msg args ei kw w
           = (if isEnabledFor lg 40
              then (Inr (), callHandlers rt lg 40 (msg @ '' ['' @ d @ '']'') args ei w)
              else (Inr (), w)) \<and>
         ContextAdapter_exception rt (Some e) \<lparr>a_logger = self, a_extra = c\<rparr> msg args ei kw w
           = (if isEnabledFor lg 40
              then (Inr (), callHandlers rt lg 40
                      (fst (process (gen_addr rt) \<lparr>a_logger = self, a_extra = c\<rparr> msg ())
                       @ '' ['' @ d @ '']'') args ei w)
              else (Inr (), w)) \<and>
         getMessage rt (msg @ '' ['' @ d @ '']'') [] = Inr (msg @ '' ['' @ d @ '']'')"
proof -
  have det: "detailed_exception (ROOT_DIR rt) (sep rt) (Some e) = Inr d"
    using detailed_exception_eq [OF assms(1)] assms(2) by simp
  have name: "if CHR 0x27 \<in> set (exc_type e) then True
      else takeWhile (\<lambda>x. x \<noteq> CHR 0x27) (exc_type e) = exc_type e"
    by (simp add: takeWhile_no_quote)
  obtain kvs where key: "has_key ex ''is_exception''" and dict: "ex = PDict kvs"
    using flag_exception_Inr [OF assms(3)] by blast
  have inner: "CustomLogger__log rt (Some e) lg lv m args ei ex w
      = (Inr (), callHandlers rt lg lv (m @ '' ['' @ d @ '']'') args ei w)" for lv m
    using CustomLogger__log_flagged [OF key det] Logger__log_accepts [OF dict assms(4)]
    by simp
  have log: "Logger_log rt (Some e) self 40 m args ei (Some ex) w
      = (if isEnabledFor lg 40
         then (Inr (), callHandlers rt lg 40 (m @ '' ['' @ d @ '']'') args ei w)
         else (Inr (), w))" for m
    using Logger_log_on [OF assms(5)] inner by simp
  have direct: "CustomLogger_exception rt (Some e) self msg args ei kw w
      = (if isEnabledFor lg 40
         then (Inr (), callHandlers rt lg 40 (msg @ '' ['' @ d @ '']'') args ei w)
         else (Inr (), w))"
    using assms(3) log by (simp add: CustomLogger_exception_def)
  have adapted: "ContextAdapter_exception rt (Some e) \<lparr>a_logger = self, a_extra = c\<rparr>
        msg args ei kw w
      = (if isEnabledFor lg 40
         then (Inr (), callHandlers rt lg 40
                 (fst (process (gen_addr rt) \<lparr>a_logger = self, a_extra = c\<rparr> msg ())
                  @ '' ['' @ d @ '']'') args ei w)
         else (Inr (), w))"
    using assms(3,5) log
      process_fst [of "gen_addr rt" "\<lparr>a_logger = self, a_extra = c\<rparr>" msg "Some ex"]
    by (simp add: ContextAdapter_exception_def Adapter_log_def)
  have plain: "getMessage rt (msg @ '' ['' @ d @ '']'') [] = Inr (msg @ '' ['' @ d @ '']'')"
    by (simp add: getMessage_def)
  show ?thesis using det name inner direct adapted plain by simp
qed

lemma demo_world_eq:
  "demo_world =
     \<lparr>shared_state = (shared_state0 demo_config)(''main_logger'' \<mapsto> PLogger 0),
      heap = [\<lparr>l_name = PStr ''LeanPython'', l_level = 20,
               l_handlers =
                 [\<lparr>h_sink = Console, h_level = 20, h_fmt = console_fmt,
                   h_datefmt = ''[%H:%M:%S]''\<rparr>,
                  \<lparr>h_sink = File \<lparr>anchor = ''/'', segs = [''proj'', ''logs'', ''LeanPython.log'']\<rparr>,
                   h_level = 20, h_fmt = file_fmt, h_datefmt = ''[%Y-%m-%d %H:%M:%S]''\<rparr>]\<rparr>],
      opened = [\<lparr>anchor = ''/'', segs = [''proj'', ''logs'', ''LeanPython.log'']\<rparr>],
      emitted = []\<rparr>"
  by (simp add: demo_world_def get_logger_def config_if_absent_def config_logger_def
      getitem_def world0_def shared_state0_def demo_config_def CONFIG_def demo_rt_def
      path_join_def Let_def)

lemma demo_zde_file:
  "err_file_of (ROOT_DIR demo_rt) (sep demo_rt) (tb_file (exc_tb demo_zde)) = Inr ''lib/foo.py''"
  by (simp add: err_file_of_def relative_to_ok_def parts_def demo_rt_def demo_zde_def
      rel_file_def py_index_def)

lemma str_int_105: "str_int 105 = ''105''"
  by code_simp

theorem exception_detail_appended_witness:
  "detailed_exception (ROOT_DIR demo_rt) (sep demo_rt) (Some demo_zde)
     = Inr ''Exception in lib/foo.py:105 - ZeroDivisionError - division by zero - Second argument to a division or modulo operation was zero.'' \<and>
   map o_msg (emitted (snd (CustomLogger_exception demo_rt (Some demo_zde) (PLogger 0)
       ''job %s failed'' [PStr ''nightly''] True None demo_world)))
     = [''job nightly failed [Exception in lib/foo.py:105 - ZeroDivisionError - division by zero - Second argument to a division or modulo operation was zero.]'',
        ''job nightly failed [Exception in lib/foo.py:105 - ZeroDivisionError - division by zero - Second argument to a division or modulo operation was zero.]''] \<and>
   map o_msg (emitted (snd (ContextAdapter_exception demo_rt (Some demo_zde)
       \<lparr>a_logger = PLogger 0, a_extra = PStr ''db''\<rparr> ''boom'' [] True
       (Some (PDict [(PStr ''job'', PStr ''nightly'')])) demo_world)))
     = [''[db] boom [Exception in lib/foo.py:105 - ZeroDivisionError - division by zero - Second argument to a division or modulo operation was zero.]'',
        ''[db] boom [Exception in lib/foo.py:105 - ZeroDivisionError - division by zero - Second argument to a division or modulo operation was zero.]'']"
proof -
  let ?d = "''Exception in lib/foo.py:105 - ZeroDivisionError - division by zero - Second argument to a division or modulo operation was zero.''"
  let ?lg = "heap demo_world ! 0"
  let ?ex1 = "PDict [(PStr ''is_exception'', PBool True)]"
  let ?ex2 = "PDict [(PStr ''job'', PStr ''nightly''), (PStr ''is_exception'', PBool True)]"
  have h2: "?d = ''Exception in '' @ ''lib/foo.py'' @ '':'' @ str_int (tb_lineno (exc_tb demo_zde))
      @ '' - '' @ takeWhile (\<lambda>x. x \<noteq> CHR 0x27) (exc_type demo_zde) @ '' - ''
      @ exc_value demo_zde @ '' - '' @ str_opt (exc_doc demo_zde)"
    by (simp add: demo_zde_def str_int_105 str_opt_def)
  have f1: "flag_exception None = Inr ?ex1"
    by (simp add: flag_exception_def)
  have f2: "flag_exception (Some (PDict [(PStr ''job'', PStr ''nightly'')])) = Inr ?ex2"
    by (simp add: flag_exception_def)
  have r1: "\<not> list_ex (has_key ?ex1) (reserved demo_rt)"
    by (simp add: demo_rt_def has_key_def)
  have r2: "\<not> list_ex (has_key ?ex2) (reserved demo_rt)"
    by (simp add: demo_rt_def has_key_def)
  have h5: "deref demo_world (PLogger 0) = Inr ?lg"
    by (simp add: deref_def demo_world_eq)
  have on: "isEnabledFor ?lg 40"
    by (simp add: isEnabledFor_def demo_world_eq)
  have fmt: "getMessage demo_rt (''job %s failed'' @ '' ['' @ ?d @ '']'') [PStr ''nightly'']
      = Inr (''job nightly failed ['' @ ?d @ '']'')"
    by (simp add: getMessage_def demo_rt_def prepend_def)
  have plain: "getMessage demo_rt (''[db] boom'' @ '' ['' @ ?d @ '']'') []
      = Inr (''[db] boom ['' @ ?d @ '']'')"
    by (simp add: getMessage_def)
  have pr: "fst (process (gen_addr demo_rt) \<lparr>a_logger = PLogger 0, a_extra = PStr ''db''\<rparr>
      ''boom'' ()) = ''[db] boom''"
    by (simp add: process_def)
  note direct = exception_detail_appended [OF demo_zde_file h2 f1 r1 h5,
      of 40 "''job %s failed''" "[PStr ''nightly'']" True PNone]
  note adapted = exception_detail_appended [OF demo_zde_file h2 f2 r2 h5,
      of 40 "''boom''" "[]" True "PStr ''db''"]
  have one: "map o_msg (emitted (snd (CustomLogger_exception demo_rt (Some demo_zde) (PLogger 0)
       ''job %s failed'' [PStr ''nightly''] True None demo_world)))
     = [''job nightly failed ['' @ ?d @ '']'', ''job nightly failed ['' @ ?d @ '']'']"
    using direct on fmt by (simp add: callHandlers_def demo_world_eq)
  have two: "map o_msg (emitted (snd (ContextAdapter_exception demo_rt (Some demo_zde)
       \<lparr>a_logger = PLogger 0, a_extra = PStr ''db''\<rparr> ''boom'' [] True
       (Some (PDict [(PStr ''job'', PStr ''nightly'')])) demo_world)))
     = [''[db] boom ['' @ ?d @ '']'', ''[db] boom ['' @ ?d @ '']'']"
    using adapted on plain pr by (simp add: callHandlers_def demo_world_eq)
  show ?thesis using direct one two by simp
qed




text \<open>
  C8, as the claim states it, fails: when the division by zero happens in a function that
  the handling function called, the frame that raised is line 7 of \<open>lib/foo.py\<close>, and
  the formatted string names line 12 of \<open>app/main.py\<close>, where the call was made;
  \<open>foo.py:7\<close> does not occur in it.
\<close>

theorem nested_raise_shows_handling_frame:
  "innermost demo_nested
     = \<lparr>tb_file = \<lparr>anchor = ''/'', segs = [''proj'', ''lib'', ''foo.py'']\<rparr>, tb_lineno = 7\<rparr> \<and>
   detailed_exception (ROOT_DIR demo_rt) (sep demo_rt) (Some demo_nested)
     = Inr ''Exception in app/main.py:12 - ZeroDivisionError - division by zero - Second argument to a division or modulo operation was zero.'' \<and>
   \<not> sublist ''foo.py:7''
       ''Exception in app/main.py:12 - ZeroDivisionError - division by zero - Second argument to a division or modulo operation was zero.''"
  by code_simp

text \<open>
  C8, amended. The file and the line number are those of the first entry of the
  traceback, the frame in which the exception is being handled, whatever entries follow
  it. For a file \<open>fname\<close> under the project root the formatted string contains
  \<open>fname:<line of that entry>\<close>, the type name and the text of the exception; when the
  exception was raised in the handling frame itself, that entry is the frame that raised.
\<close>

theorem detailed_exception_first_entry:
  assumes "anchor root \<noteq> []"
    and "parts (tb_file (exc_tb e)) = parts root @ ds @ [fname]"
    and "CHR 0x27 \<notin> set (exc_type e)"
  shows "(\<exists>s. detailed_exception root sp (Some e) = Inr s \<and>
              sublist (fname @ '':'' @ str_int (tb_lineno (exc_tb e))) s \<and>
              sublist (exc_type e) s \<and> sublist (exc_value e) s) \<and>
         detailed_exception root sp (Some (e\<lparr>exc_tb_next := later\<rparr>))
           = detailed_exception root sp (Some e) \<and>
         innermost (e\<lparr>exc_tb_next := []\<rparr>) = exc_tb e"
proof -
  let ?folder = "last (parts root @ ds)"
  let ?line = "str_int (tb_lineno (exc_tb e))"
  let ?s = "''Exception in '' @ (?folder @ ''/'' @ fname) @ '':'' @ ?line @ '' - ''
            @ exc_type e @ '' - '' @ exc_value e @ '' - '' @ str_opt (exc_doc e)"
  have shown: "err_file_of root sp (tb_file (exc_tb e)) = Inr (?folder @ ''/'' @ fname)"
    using assms(1,2) by (rule err_file_of_under_root)
  have eq: "detailed_exception root sp (Some e) = Inr ?s"
    using detailed_exception_eq [OF shown] assms(3) by (simp add: takeWhile_no_quote)
  have a: "?s = (''Exception in '' @ ?folder @ ''/'') @ (fname @ '':'' @ ?line)
             @ ('' - '' @ exc_type e @ '' - '' @ exc_value e @ '' - '' @ str_opt (exc_doc e))"
    by simp
  have b: "?s = (''Exception in '' @ ?folder @ ''/'' @ fname @ '':'' @ ?line @ '' - '')
             @ exc_type e @ ('' - '' @ exc_value e @ '' - '' @ str_opt (exc_doc e))"
    by simp
  have c: "?s = (''Exception in '' @ ?folder @ ''/'' @ fname @ '':'' @ ?line @ '' - ''
             @ exc_type e @ '' - '') @ exc_value e @ ('' - '' @ str_opt (exc_doc e))"
    by simp
  have s1: "sublist (fname @ '':'' @ ?line) ?s"
    by (subst a) (rule sublist_appendI)
  have s2: "sublist (exc_type e) ?s"
    by (subst b) (rule sublist_appendI)
  have s3: "sublist (exc_value e) ?s"
    by (subst c) (rule sublist_appendI)
  have later: "detailed_exception root sp (Some (e\<lparr>exc_tb_next := later\<rparr>))
      = detailed_exception root sp (Some e)"
    by (simp add: detailed_exception_def customFormatException_ok split: sum.splits)
  have inner: "innermost (e\<lparr>exc_tb_next := []\<rparr>) = exc_tb e"
    by (simp add: innermost_def)
  show ?thesis using eq s1 s2 s3 later inner by blast
qed

theorem detailed_exception_first_entry_witness:
  "anchor (ROOT_DIR demo_rt) \<noteq> [] \<and>
   parts (tb_file (exc_tb demo_zde)) = parts (ROOT_DIR demo_rt) @ [''lib''] @ [''foo.py''] \<and>
   CHR 0x27 \<notin> set (exc_type demo_zde) \<and>
   (\<exists>s. detailed_exception (ROOT_DIR demo_rt) ''/'' (Some demo_zde) = Inr s \<and>
        sublist ''foo.py:105'' s \<and> sublist ''ZeroDivisionError'' s \<and>
        sublist ''division by zero'' s) \<and>
   detailed_exception (ROOT_DIR demo_rt) ''/'' (Some demo_nested)
     = detailed_exception (ROOT_DIR demo_rt) ''/'' (Some (demo_nested\<lparr>exc_tb_next := []\<rparr>)) \<and>
   innermost demo_zde = exc_tb demo_zde"
proof -
  have h1: "anchor (ROOT_DIR demo_rt) \<noteq> []"
    by (simp add: demo_rt_def)
  have h2: "parts (tb_file (exc_tb demo_zde)) = parts (ROOT_DIR demo_rt) @ [''lib''] @ [''foo.py'']"
    by (simp add: demo_rt_def demo_zde_def parts_def)
  have h3: "CHR 0x27 \<notin> set (exc_type demo_zde)"
    by (simp add: demo_zde_def)
  have g1: "anchor (ROOT_DIR demo_rt) \<noteq> []"
    by (simp add: demo_rt_def)
  have g2: "parts (tb_file (exc_tb (demo_nested\<lparr>exc_tb_next := []\<rparr>)))
      = parts (ROOT_DIR demo_rt) @ [''app''] @ [''main.py'']"
    by (simp add: demo_rt_def demo_nested_def parts_def)
  have g3: "CHR 0x27 \<notin> set (exc_type (demo_nested\<lparr>exc_tb_next := []\<rparr>))"
    by (simp add: demo_nested_def)
  have z: "demo_zde\<lparr>exc_tb_next := []\<rparr> = demo_zde"
    by (simp add: demo_zde_def)
  have n: "demo_nested\<lparr>exc_tb_next := []\<rparr>\<lparr>exc_tb_next := exc_tb_next demo_nested\<rparr> = demo_nested"
    by simp
  have lit: "''foo.py'' @ '':'' @ str_int (tb_lineno (exc_tb demo_zde)) = ''foo.py:105''"
    by (simp add: demo_zde_def str_int_105)
  have ty: "exc_type demo_zde = ''ZeroDivisionError''" and va: "exc_value demo_zde = ''division by zero''"
    by (simp_all add: demo_zde_def)
  show ?thesis
    using h1 h2 h3
      detailed_exception_first_entry [OF h1 h2 h3, of "''/''" "[]"]
      detailed_exception_first_entry [OF g1 g2 g3, of "''/''" "exc_tb_next demo_nested"]
    unfolding z n lit ty va by simp
qed

section \<open>Acquiring the logger\<close>

lemma config_logger_success:
  assumes "shared_state w ''root_level'' = Some rl" and "checkLevel rl = Inr lvl"
    and "shared_state w ''log_file_path'' = Some d"
    and "shared_state w ''log_file_name'' = Some n"
    and "truediv rt d n = Inr f" and "can_open rt f"
    and "shared_state w ''name'' = Some nm"
  shows "config_logger rt w =
    (Inr (),
     w\<lparr>opened := opened w @ [f],
       heap := heap w @
         [\<lparr>l_name = nm, l_level = lvl,
           l_handlers =
             [\<lparr>h_sink = Console, h_level = lvl, h_fmt = console_fmt,
               h_datefmt = ''[%H:%M:%S]''\<rparr>,
              \<lparr>h_sink = File f, h_level = lvl, h_fmt = file_fmt,
               h_datefmt = ''[%Y-%m-%d %H:%M:%S]''\<rparr>]\<rparr>],
       shared_state := (shared_state w)(''main_logger'' \<mapsto> PLogger (length (heap w)))\<rparr>)"
  using assms by (simp add: config_logger_def getitem_def Let_def)

lemma config_if_absent_constructed:
  "shared_state w ''main_logger'' = Some m \<Longrightarrow> truthy m \<Longrightarrow>
   config_if_absent rt w = (Inr (), w)"
  by (simp add: config_if_absent_def getitem_def)

lemma acquire_constructed:
  assumes "shared_state w ''main_logger'' = Some m" and "truthy m"
  shows "acquire rt a w = (Inr (result_for a m), w)"
  using assms config_if_absent_constructed [OF assms, of rt]
  by (cases a)
     (simp_all add: acquire_def get_logger_def get_adapter_def getitem_def result_for_def)

lemma acquire_all_constructed:
  assumes "shared_state w ''main_logger'' = Some m" and "truthy m"
  shows "acquire_all rt as w = (map (\<lambda>a. Inr (result_for a m)) as, w)"
  by (induction as) (simp_all add: acquire_constructed [OF assms])

lemma acquire_first:
  assumes "shared_state w ''main_logger'' = Some m" and "\<not> truthy m"
    and "config_logger rt w = (Inr (), w')"
    and "shared_state w' ''main_logger'' = Some m'"
  shows "acquire rt a w = (Inr (result_for a m'), w')"
proof -
  have "config_if_absent rt w = (Inr (), w')"
    using assms(1,2,3) by (simp add: config_if_absent_def getitem_def)
  then show ?thesis
    using assms(4)
    by (cases a)
       (simp_all add: acquire_def get_logger_def get_adapter_def getitem_def result_for_def)
qed

lemma underlying_result_for: "underlying (result_for a m) = m"
  by (cases a) (simp_all add: underlying_def result_for_def)

text \<open>
  C3. Start where no logger is stored and the construction can succeed (a valid level, a
  log file that can be opened). Then any \<open>N \<ge> 1\<close> acquisitions, \<open>get_logger\<close> and
  \<open>get_adapter\<close> in any order, all return the one logger created by the first of them
  (by \<open>underlying_result_for\<close>, each result refers to it):
  the state afterwards holds exactly one new logger, with one console handler and one file
  handler, and one opened file. A message then logged at an enabled level reaches each of
  the two handlers once: a call without arguments is written as it is, a call with
  arguments as \<open>msg % args\<close>, and one whose arguments do not fit its format is written by
  neither handler.
\<close>

theorem acquisition_idempotent:
  assumes "shared_state w ''main_logger'' = Some m" and "\<not> truthy m"
    and "shared_state w ''root_level'' = Some rl" and "checkLevel rl = Inr lvl"
    and "shared_state w ''log_file_path'' = Some d"
    and "shared_state w ''log_file_name'' = Some n"
    and "truediv rt d n = Inr f" and "can_open rt f"
    and "shared_state w ''name'' = Some nm"
    and "as \<noteq> []"
    and "lg = \<lparr>l_name = nm, l_level = lvl,
               l_handlers =
                 [\<lparr>h_sink = Console, h_level = lvl, h_fmt = console_fmt,
                   h_datefmt = ''[%H:%M:%S]''\<rparr>,
                  \<lparr>h_sink = File f, h_level = lvl, h_fmt = file_fmt,
                   h_datefmt = ''[%Y-%m-%d %H:%M:%S]''\<rparr>]\<rparr>"
    and "w' = w\<lparr>opened := opened w @ [f], heap := heap w @ [lg],
                  shared_state :=
                    (shared_state w)(''main_logger'' \<mapsto> PLogger (length (heap w)))\<rparr>"
  shows "acquire_all rt as w
           = (map (\<lambda>a. Inr (result_for a (PLogger (length (heap w))))) as, w') \<and>
         deref w' (PLogger (length (heap w))) = Inr lg \<and>
         map h_sink (l_handlers lg) = [Console, File f] \<and>
         (if 0 < level \<and> lvl \<le> level
          then Logger_log rt exc (PLogger (length (heap w))) level msg [] ei None w'
               = (Inr (),
                  w'\<lparr>emitted := emitted w' @
                     [\<lparr>o_sink = Console, o_level = level, o_msg = msg, o_exc_info = ei\<rparr>,
                      \<lparr>o_sink = File f, o_level = level, o_msg = msg, o_exc_info = ei\<rparr>]\<rparr>)
          else Logger_log rt exc (PLogger (length (heap w))) level msg [] ei None w'
               = (Inr (), w')) \<and>
         (if 0 < level \<and> lvl \<le> level
          then Logger_log rt exc (PLogger (length (heap w))) level msg args ei None w'
               = (Inr (),
                  w'\<lparr>emitted := emitted w' @
                     (case getMessage rt msg args of
                        Inl err \<Rightarrow> []
                      | Inr text \<Rightarrow>
                          [\<lparr>o_sink = Console, o_level = level, o_msg = text, o_exc_info = ei\<rparr>,
                           \<lparr>o_sink = File f, o_level = level, o_msg = text,
                            o_exc_info = ei\<rparr>])\<rparr>)
          else Logger_log rt exc (PLogger (length (heap w))) level msg args ei None w'
               = (Inr (), w'))"
proof -
  let ?ref = "PLogger (length (heap w))"
  obtain a rest where as: "as = a # rest"
    using assms(10) by (cases as) auto
  have built: "config_logger rt w = (Inr (), w')"
    using config_logger_success [OF assms(3-9)] assms(11,12) by simp
  have stored: "shared_state w' ''main_logger'' = Some ?ref"
    by (simp add: assms(12))
  have first: "acquire rt a w = (Inr (result_for a ?ref), w')"
    using assms(1,2) built stored by (rule acquire_first)
  have later: "acquire_all rt rest w' = (map (\<lambda>a. Inr (result_for a ?ref)) rest, w')"
    using stored by (rule acquire_all_constructed) simp
  have all: "acquire_all rt as w = (map (\<lambda>a. Inr (result_for a ?ref)) as, w')"
    by (simp add: as first later)
  have obj: "deref w' ?ref = Inr lg"
    by (simp add: deref_def assms(12))
  have sinks: "map h_sink (l_handlers lg) = [Console, File f]"
    by (simp add: assms(11))
  have emit: "if 0 < level \<and> lvl \<le> level
      then Logger_log rt exc ?ref level msg xs ei None w'
           = (Inr (),
              w'\<lparr>emitted := emitted w' @
                 (case getMessage rt msg xs of
                    Inl err \<Rightarrow> []
                  | Inr text \<Rightarrow>
                      [\<lparr>o_sink = Console, o_level = level, o_msg = text, o_exc_info = ei\<rparr>,
                       \<lparr>o_sink = File f, o_level = level, o_msg = text,
                        o_exc_info = ei\<rparr>])\<rparr>)
      else Logger_log rt exc ?ref level msg xs ei None w' = (Inr (), w')" for xs
    using obj
    by (simp add: Logger_log_def isEnabledFor_def CustomLogger__log_def has_key_def
        Logger__log_def callHandlers_def assms(11) split: sum.splits)
  have plain: "if 0 < level \<and> lvl \<le> level
      then Logger_log rt exc ?ref level msg [] ei None w'
           = (Inr (),
              w'\<lparr>emitted := emitted w' @
                 [\<lparr>o_sink = Console, o_level = level, o_msg = msg, o_exc_info = ei\<rparr>,
                  \<lparr>o_sink = File f, o_level = level, o_msg = msg, o_exc_info = ei\<rparr>]\<rparr>)
      else Logger_log rt exc ?ref level msg [] ei None w' = (Inr (), w')"
    using emit [of "[]"] by (simp add: getMessage_def)
  show ?thesis using all obj sinks plain emit [of args] by simp
qed

theorem acquisition_idempotent_witness:
  "acquire_all demo_rt [GetLogger, GetAdapter (PStr ''db''), GetLogger] (world0 demo_config)
     = ([Inr (ALogger (PLogger 0)),
         Inr (AAdapter \<lparr>a_logger = PLogger 0, a_extra = PStr ''db''\<rparr>),
         Inr (ALogger (PLogger 0))], demo_world) \<and>
   length (heap demo_world) = 1 \<and>
   map h_sink (l_handlers (heap demo_world ! 0))
     = [Console, File \<lparr>anchor = ''/'', segs = [''proj'', ''logs'', ''LeanPython.log'']\<rparr>] \<and>
   emitted (snd (Logger_log demo_rt None (PLogger 0) 30 ''careful'' [] False None demo_world))
     = [\<lparr>o_sink = Console, o_level = 30, o_msg = ''careful'', o_exc_info = False\<rparr>,
        \<lparr>o_sink = File \<lparr>anchor = ''/'', segs = [''proj'', ''logs'', ''LeanPython.log'']\<rparr>,
         o_level = 30, o_msg = ''careful'', o_exc_info = False\<rparr>] \<and>
   emitted (snd (Logger_log demo_rt None (PLogger 0) 10 ''detail'' [] False None demo_world)) = []"
proof -
  let ?w = "world0 demo_config"
  let ?f = "\<lparr>anchor = ''/'', segs = [''proj'', ''logs'', ''LeanPython.log'']\<rparr>"
  let ?lg = "\<lparr>l_name = PStr ''LeanPython'', l_level = 20,
              l_handlers =
                [\<lparr>h_sink = Console, h_level = 20, h_fmt = console_fmt,
                  h_datefmt = ''[%H:%M:%S]''\<rparr>,
                 \<lparr>h_sink = File ?f, h_level = 20, h_fmt = file_fmt,
                  h_datefmt = ''[%Y-%m-%d %H:%M:%S]''\<rparr>]\<rparr>"
  have h1: "shared_state ?w ''main_logger'' = Some PNone"
    by (simp add: world0_def shared_state0_def)
  have h2: "\<not> truthy PNone" by simp
  have h3: "shared_state ?w ''root_level'' = Some (PInt 20)"
    by (simp add: world0_def shared_state0_def demo_config_def CONFIG_def)
  have h4: "checkLevel (PInt 20) = Inr 20" by simp
  have h5: "shared_state ?w ''log_file_path'' = Some (PPath \<lparr>anchor = ''/'', segs = [''proj'', ''logs'']\<rparr>)"
    by (simp add: world0_def shared_state0_def demo_config_def CONFIG_def demo_rt_def)
  have h6: "shared_state ?w ''log_file_name'' = Some (PPath \<lparr>anchor = [], segs = [''LeanPython.log'']\<rparr>)"
    by (simp add: world0_def shared_state0_def demo_config_def CONFIG_def)
  have h7: "truediv demo_rt (PPath \<lparr>anchor = ''/'', segs = [''proj'', ''logs'']\<rparr>)
      (PPath \<lparr>anchor = [], segs = [''LeanPython.log'']\<rparr>) = Inr ?f"
    by (simp add: path_join_def)
  have h8: "can_open demo_rt ?f" by (simp add: demo_rt_def)
  have h9: "shared_state ?w ''name'' = Some (PStr ''LeanPython'')"
    by (simp add: world0_def shared_state0_def demo_config_def CONFIG_def)
  have h10: "[GetLogger, GetAdapter (PStr ''db''), GetLogger] \<noteq> []" by simp
  have h11: "?lg = ?lg" by simp
  have h12: "demo_world = ?w\<lparr>opened := opened ?w @ [?f], heap := heap ?w @ [?lg],
      shared_state := (shared_state ?w)(''main_logger'' \<mapsto> PLogger (length (heap ?w)))\<rparr>"
    by (simp add: demo_world_eq world0_def)
  have len: "length (heap ?w) = 0" by (simp add: world0_def)
  show ?thesis
    using acquisition_idempotent [OF h1 h2 h3 h4 h5 h6 h7 h8 h9 h10 h11 h12, of 30 None "''careful''" False "[]"]
      acquisition_idempotent [OF h1 h2 h3 h4 h5 h6 h7 h8 h9 h10 h11 h12, of 10 None "''detail''" False "[]"]
    unfolding len
    by (simp add: result_for_def deref_def demo_world_eq)
qed

section \<open>Overrides before and after the first construction\<close>

lemma merge_items_absent:
  "PStr k \<notin> fst ` set kvs \<Longrightarrow> merge_items st kvs k = st k"
proof (induction kvs arbitrary: st)
  case Nil
  then show ?case by simp
next
  case (Cons a kvs)
  obtain key v where a: "a = (key, v)" by (cases a)
  from Cons.prems have "key \<noteq> PStr k" and "PStr k \<notin> fst ` set kvs"
    by (auto simp: a)
  then show ?case
    using Cons.IH by (cases key) (simp_all add: a)
qed

lemma merge_items_override:
  "distinct (map fst kvs) \<Longrightarrow> (PStr k, v) \<in> set kvs \<Longrightarrow> st k \<noteq> None \<Longrightarrow>
   merge_items st kvs k = Some v"
proof (induction kvs arbitrary: st)
  case Nil
  then show ?case by simp
next
  case (Cons a kvs)
  obtain key v' where a: "a = (key, v')" by (cases a)
  let ?st = "case key of PStr j \<Rightarrow> (if st j \<noteq> None then st(j \<mapsto> v') else st) | _ \<Rightarrow> st"
  have step: "merge_items st (a # kvs) = merge_items ?st kvs"
    by (simp add: a)
  show ?case
  proof (cases "a = (PStr k, v)")
    case True
    then have "PStr k \<notin> fst ` set kvs"
      using Cons.prems(1) by (simp add: image_iff)
    then have "merge_items ?st kvs k = ?st k"
      by (rule merge_items_absent)
    moreover have "?st k = Some v"
      using True Cons.prems(3) by (simp add: a)
    ultimately show ?thesis using step by simp
  next
    case False
    then have mem: "(PStr k, v) \<in> set kvs"
      using Cons.prems(2) by simp
    have "?st k \<noteq> None"
      using Cons.prems(3) by (cases key) (simp_all)
    then have "merge_items ?st kvs k = Some v"
      using Cons.IH [of ?st] Cons.prems(1) mem by simp
    then show ?thesis using step by simp
  qed
qed

lemma config_logger_Inr:
  assumes "config_logger rt w = (Inr (), w')"
  shows "\<exists>rl lvl d n f nm.
           shared_state w ''root_level'' = Some rl \<and> checkLevel rl = Inr lvl \<and>
           shared_state w ''log_file_path'' = Some d \<and>
           shared_state w ''log_file_name'' = Some n \<and>
           truediv rt d n = Inr f \<and> can_open rt f \<and> shared_state w ''name'' = Some nm \<and>
           w' = w\<lparr>opened := opened w @ [f],
                  heap := heap w @
                    [\<lparr>l_name = nm, l_level = lvl,
                      l_handlers =
                        [\<lparr>h_sink = Console, h_level = lvl, h_fmt = console_fmt,
                          h_datefmt = ''[%H:%M:%S]''\<rparr>,
                         \<lparr>h_sink = File f, h_level = lvl, h_fmt = file_fmt,
                          h_datefmt = ''[%Y-%m-%d %H:%M:%S]''\<rparr>]\<rparr>],
                  shared_state :=
                    (shared_state w)(''main_logger'' \<mapsto> PLogger (length (heap w)))\<rparr>"
  using assms
  by (auto simp: config_logger_def getitem_def Let_def
      split: sum.splits option.splits if_splits)

lemma config_logger_Inl:
  "config_logger rt w = (Inl e, w') \<Longrightarrow> heap w' = heap w \<and> shared_state w' = shared_state w"
  by (auto simp: config_logger_def getitem_def Let_def
      split: sum.splits option.splits if_splits)

lemma config_logger_heap_prefix: "prefix (heap w) (heap (snd (config_logger rt w)))"
proof (cases "config_logger rt w")
  case (Pair r w')
  show ?thesis
  proof (cases r)
    case (Inl e)
    then show ?thesis using Pair config_logger_Inl [of rt w e w'] by simp
  next
    case (Inr u)
    then show ?thesis using Pair config_logger_Inr [of rt w w'] by auto
  qed
qed
lemma configuration_keys_override:
  assumes "distinct (map fst kvs)"
    and "fst ` set kvs \<subseteq>
           {PStr ''name'', PStr ''root_level'', PStr ''log_file_path'', PStr ''log_file_name''}"
  shows "configuration_override kvs"
  using assms by (auto simp: configuration_override_def)

text \<open>
  C4. Take a configuration override. Every entry of it whose key is in the shared state is
  stored there, before and after the first construction, and the loggers that exist are
  never touched. Supplied before the first construction, when the construction succeeds:
  one logger is added, and its name, its level, the levels of its two handlers and the
  file of its file handler are read from the shared state that holds the overrides.
  Supplied after the first construction: the call succeeds, the stored logger stays the
  stored logger, and nothing is created or changed besides the merged entries: no logger,
  no handler, no opened file, no output.
\<close>

theorem overrides_before_and_after:
  assumes "configuration_override kvs"
    and "shared_state w ''main_logger'' = Some m"
    and "BorgLogger_new rt (PDict kvs) w = (r, w')"
  shows "(\<forall>k v. (PStr k, v) \<in> set kvs \<and> shared_state w k \<noteq> None
            \<longrightarrow> shared_state w' k = Some v) \<and>
         prefix (heap w) (heap w') \<and>
         (truthy m \<longrightarrow>
            r = Inr () \<and> shared_state w' ''main_logger'' = Some m \<and>
            heap w' = heap w \<and> opened w' = opened w \<and> emitted w' = emitted w) \<and>
         (\<not> truthy m \<and> r = Inr () \<longrightarrow>
            (\<exists>lg rl d n f.
               heap w' = heap w @ [lg] \<and>
               shared_state w' ''main_logger'' = Some (PLogger (length (heap w))) \<and>
               shared_state w' ''name'' = Some (l_name lg) \<and>
               shared_state w' ''root_level'' = Some rl \<and> checkLevel rl = Inr (l_level lg) \<and>
               map h_level (l_handlers lg) = [l_level lg, l_level lg] \<and>
               shared_state w' ''log_file_path'' = Some d \<and>
               shared_state w' ''log_file_name'' = Some n \<and> truediv rt d n = Inr f \<and>
               map h_sink (l_handlers lg) = [Console, File f] \<and>
               opened w' = opened w @ [f]))"
proof -
  let ?st = "merge_items (shared_state w) kvs"
  let ?w1 = "w\<lparr>shared_state := ?st\<rparr>"
  have dist: "distinct (map fst kvs)" and nokey: "PStr ''main_logger'' \<notin> fst ` set kvs"
    using assms(1) by (simp_all add: configuration_override_def)
  have new: "config_if_absent rt ?w1 = (r, w')"
    using assms(3) by (simp add: BorgLogger_new_def)
  have m1: "?st ''main_logger'' = Some m"
    using merge_items_absent [OF nokey] assms(2) by simp
  have merged: "?st k = Some v" if "(PStr k, v) \<in> set kvs" and "shared_state w k \<noteq> None" for k v
    using merge_items_override [of kvs k v "shared_state w"] dist that by simp
  have other: "k \<noteq> ''main_logger''" if "(PStr k, v) \<in> set kvs" for k v
    using that nokey by (metis fst_conv image_eqI)
  show ?thesis
  proof (cases "truthy m")
    case True
    have "config_if_absent rt ?w1 = (Inr (), ?w1)"
      using m1 True by (simp add: config_if_absent_def getitem_def)
    then have r: "r = Inr ()" and w': "w' = ?w1"
      using new by simp_all
    show ?thesis
      using True merged m1 by (simp add: r w')
  next
    case False
    have cl: "config_logger rt ?w1 = (r, w')"
      using m1 False new by (simp add: config_if_absent_def getitem_def)
    have pre: "prefix (heap w) (heap w')"
      using config_logger_heap_prefix [of ?w1 rt] cl by simp
    have keep: "shared_state w' k = Some v"
      if mem: "(PStr k, v) \<in> set kvs" and rec: "shared_state w k \<noteq> None" for k v
    proof (cases r)
      case (Inl e)
      then have "shared_state w' = ?st"
        using cl config_logger_Inl [of rt ?w1 e w'] by simp
      then show ?thesis using merged [OF mem rec] by simp
    next
      case (Inr u)
      then have "shared_state w' = ?st(''main_logger'' \<mapsto> PLogger (length (heap w)))"
        using cl config_logger_Inr [of rt ?w1 w'] by auto
      then show ?thesis using merged [OF mem rec] other [OF mem] by simp
    qed
    have built: "\<exists>lg rl d n f.
               heap w' = heap w @ [lg] \<and>
               shared_state w' ''main_logger'' = Some (PLogger (length (heap w))) \<and>
               shared_state w' ''name'' = Some (l_name lg) \<and>
               shared_state w' ''root_level'' = Some rl \<and> checkLevel rl = Inr (l_level lg) \<and>
               map h_level (l_handlers lg) = [l_level lg, l_level lg] \<and>
               shared_state w' ''log_file_path'' = Some d \<and>
               shared_state w' ''log_file_name'' = Some n \<and> truediv rt d n = Inr f \<and>
               map h_sink (l_handlers lg) = [Console, File f] \<and>
               opened w' = opened w @ [f]"
      if ok: "r = Inr ()"
    proof -
      obtain rl lvl d n f nm where
        rl: "?st ''root_level'' = Some rl" and lvl: "checkLevel rl = Inr lvl" and
        d: "?st ''log_file_path'' = Some d" and n: "?st ''log_file_name'' = Some n" and
        f: "truediv rt d n = Inr f" and nm: "?st ''name'' = Some nm" and
        w': "w' = ?w1\<lparr>opened := opened ?w1 @ [f],
                  heap := heap ?w1 @
                    [\<lparr>l_name = nm, l_level = lvl,
                      l_handlers =
                        [\<lparr>h_sink = Console, h_level = lvl, h_fmt = console_fmt,
                          h_datefmt = ''[%H:%M:%S]''\<rparr>,
                         \<lparr>h_sink = File f, h_level = lvl, h_fmt = file_fmt,
                          h_datefmt = ''[%Y-%m-%d %H:%M:%S]''\<rparr>]\<rparr>],
                  shared_state :=
                    (shared_state ?w1)(''main_logger'' \<mapsto> PLogger (length (heap ?w1)))\<rparr>"
        using config_logger_Inr [of rt ?w1 w'] cl ok by auto
      show ?thesis
        by (rule exI [of _ "\<lparr>l_name = nm, l_level = lvl,
                      l_handlers =
                        [\<lparr>h_sink = Console, h_level = lvl, h_fmt = console_fmt,
                          h_datefmt = ''[%H:%M:%S]''\<rparr>,
                         \<lparr>h_sink = File f, h_level = lvl, h_fmt = file_fmt,
                          h_datefmt = ''[%Y-%m-%d %H:%M:%S]''\<rparr>]\<rparr>"],
            rule exI [of _ rl], rule exI [of _ d], rule exI [of _ n], rule exI [of _ f])
           (simp add: w' rl lvl d n f nm)
    qed
    show ?thesis
      using False pre keep built by blast
  qed
qed
theorem overrides_before_and_after_witness:
  "fst (BorgLogger_new demo_rt
         (PDict [(PStr ''root_level'', PStr ''DEBUG''), (PStr ''name'', PStr ''app''),
                 (PStr ''colour'', PStr ''red'')]) (world0 demo_config)) = Inr () \<and>
   map l_name (heap (snd (BorgLogger_new demo_rt
         (PDict [(PStr ''root_level'', PStr ''DEBUG''), (PStr ''name'', PStr ''app''),
                 (PStr ''colour'', PStr ''red'')]) (world0 demo_config)))) = [PStr ''app''] \<and>
   map (\<lambda>l. l_level l # map h_level (l_handlers l)) (heap (snd (BorgLogger_new demo_rt
         (PDict [(PStr ''root_level'', PStr ''DEBUG''), (PStr ''name'', PStr ''app''),
                 (PStr ''colour'', PStr ''red'')]) (world0 demo_config)))) = [[10, 10, 10]] \<and>
   fst (BorgLogger_new demo_rt (PDict [(PStr ''root_level'', PStr ''DEBUG'')]) demo_world)
     = Inr () \<and>
   heap (snd (BorgLogger_new demo_rt (PDict [(PStr ''root_level'', PStr ''DEBUG'')]) demo_world))
     = heap demo_world \<and>
   shared_state (snd (BorgLogger_new demo_rt (PDict [(PStr ''root_level'', PStr ''DEBUG'')])
       demo_world)) ''main_logger'' = Some (PLogger 0) \<and>
   map (\<lambda>l. l_level l # map h_level (l_handlers l)) (heap demo_world) = [[20, 20, 20]] \<and>
   shared_state (snd (BorgLogger_new demo_rt (PDict [(PStr ''root_level'', PStr ''DEBUG'')])
       demo_world)) ''root_level'' = Some (PStr ''DEBUG'')"
proof -
  let ?kvs1 = "[(PStr ''root_level'', PStr ''DEBUG''), (PStr ''name'', PStr ''app''),
                (PStr ''colour'', PStr ''red'')]"
  let ?kvs2 = "[(PStr ''root_level'', PStr ''DEBUG'')]"
  let ?X1 = "BorgLogger_new demo_rt (PDict ?kvs1) (world0 demo_config)"
  let ?X2 = "BorgLogger_new demo_rt (PDict ?kvs2) demo_world"
  have c1: "configuration_override ?kvs1"
    by (simp add: configuration_override_def)
  have m1: "shared_state (world0 demo_config) ''main_logger'' = Some PNone"
    by (simp add: world0_def shared_state0_def)
  have x1: "?X1 = (fst ?X1, snd ?X1)" by simp
  have c2: "configuration_override ?kvs2"
    by (rule configuration_keys_override) simp_all
  have m2: "shared_state demo_world ''main_logger'' = Some (PLogger 0)"
    by (simp add: demo_world_eq)
  have x2: "?X2 = (fst ?X2, snd ?X2)" by simp
  note before = overrides_before_and_after [OF c1 m1 x1]
  note after = overrides_before_and_after [OF c2 m2 x2]
  have ok1: "fst ?X1 = Inr ()"
    by (simp add: BorgLogger_new_def world0_def shared_state0_def demo_config_def CONFIG_def
        demo_rt_def config_if_absent_def getitem_def config_logger_def nameToLevel_def
        path_join_def)
  have rec: "shared_state (world0 demo_config) ''root_level'' \<noteq> None"
       "shared_state (world0 demo_config) ''name'' \<noteq> None"
       "shared_state demo_world ''root_level'' \<noteq> None"
    by (simp_all add: world0_def shared_state0_def demo_world_eq)
  from before ok1 obtain lg rl where
    h: "heap (snd ?X1) = heap (world0 demo_config) @ [lg]" and
    nm: "shared_state (snd ?X1) ''name'' = Some (l_name lg)" and
    rl: "shared_state (snd ?X1) ''root_level'' = Some rl" and
    lv: "checkLevel rl = Inr (l_level lg)" and
    hl: "map h_level (l_handlers lg) = [l_level lg, l_level lg]"
    by auto
  have "shared_state (snd ?X1) ''name'' = Some (PStr ''app'')"
    using before rec(2) by simp
  then have name: "l_name lg = PStr ''app''" using nm by simp
  have "shared_state (snd ?X1) ''root_level'' = Some (PStr ''DEBUG'')"
    using before rec(1) by simp
  then have "rl = PStr ''DEBUG''" using rl by simp
  then have level: "l_level lg = 10" using lv by (simp add: nameToLevel_def)
  have first: "map l_name (heap (snd ?X1)) = [PStr ''app''] \<and>
      map (\<lambda>l. l_level l # map h_level (l_handlers l)) (heap (snd ?X1)) = [[10, 10, 10]]"
    using h name level hl by (simp add: world0_def)
  have second: "fst ?X2 = Inr () \<and> heap (snd ?X2) = heap demo_world \<and>
      shared_state (snd ?X2) ''main_logger'' = Some (PLogger 0) \<and>
      shared_state (snd ?X2) ''root_level'' = Some (PStr ''DEBUG'')"
    using after rec(3) by simp
  have third: "map (\<lambda>l. l_level l # map h_level (l_handlers l)) (heap demo_world) = [[20, 20, 20]]"
    by (simp add: demo_world_eq)
  show ?thesis using ok1 first second third by simp
qed

section \<open>Two threads acquiring the logger for the first time\<close>

text \<open>
  The three steps, run by one thread with no other in between, are \<open>get_logger\<close>.
\<close>

lemma done_step:
  "thread_step rt (Raised e) w = (Raised e, w)"
  "thread_step rt (Returned v) w = (Returned v, w)"
  by (simp_all add: thread_step_def)

lemma single_thread_is_get_logger:
  "run_schedule rt [0, 0, 0] ([AtGuard], w)
     = ([case fst (get_logger rt w) of Inl e \<Rightarrow> Raised e | Inr v \<Rightarrow> Returned v],
        snd (get_logger rt w))"
proof (cases "shared_state w ''main_logger''")
  case None
  then have "thread_step rt AtGuard w = (Raised KeyError, w)"
    and "get_logger rt w = (Inl KeyError, w)"
    by (simp_all add: thread_step_def get_logger_def config_if_absent_def getitem_def)
  then show ?thesis by (simp add: done_step)
next
  case (Some m)
  show ?thesis
  proof (cases "truthy m")
    case True
    then have "thread_step rt AtGuard w = (AtReturn, w)"
      and "thread_step rt AtReturn w = (Returned m, w)"
      and "get_logger rt w = (Inr m, w)"
      using Some
      by (simp_all add: thread_step_def get_logger_def config_if_absent_def getitem_def)
    then show ?thesis by (simp add: done_step)
  next
    case False
    then have guard: "thread_step rt AtGuard w = (AtConstruct, w)"
      and absent: "config_if_absent rt w = config_logger rt w"
      using Some by (simp_all add: thread_step_def config_if_absent_def getitem_def)
    obtain r w' where cl: "config_logger rt w = (r, w')"
      by (cases "config_logger rt w")
    show ?thesis
    proof (cases r)
      case (Inl e)
      then have "thread_step rt AtConstruct w = (Raised e, w')"
        and "get_logger rt w = (Inl e, w')"
        using cl absent by (simp_all add: thread_step_def get_logger_def)
      then show ?thesis using guard by (simp add: done_step)
    next
      case (Inr u)
      then have built: "thread_step rt AtConstruct w = (AtReturn, w')"
        and got: "get_logger rt w = (getitem (shared_state w') ''main_logger'', w')"
        using cl absent by (simp_all add: thread_step_def get_logger_def)
      show ?thesis
        using guard built got
        by (cases "shared_state w' ''main_logger''")
           (simp_all add: thread_step_def getitem_def)
    qed
  qed
qed

lemma guard_step:
  "shared_state w ''main_logger'' = Some m \<Longrightarrow> \<not> truthy m \<Longrightarrow>
   thread_step rt AtGuard w = (AtConstruct, w)"
  by (simp add: thread_step_def getitem_def)

lemma construct_step:
  "config_logger rt w = (Inr (), w') \<Longrightarrow> thread_step rt AtConstruct w = (AtReturn, w')"
  by (simp add: thread_step_def)

lemma return_step:
  "shared_state w ''main_logger'' = Some m \<Longrightarrow> thread_step rt AtReturn w = (Returned m, w)"
  by (simp add: thread_step_def getitem_def)

text \<open>
  C9. Two threads call \<open>get_logger\<close> where no logger is stored and the construction can
  succeed. When both evaluate the guard before either constructs, both construct: the
  state ends with two new loggers, each with its own console and file handler, and the
  log file opened twice. Depending on when the first thread reads its result, both
  threads get the second logger, or each thread gets a logger of its own. A message
  logged through the stored logger still reaches one console handler and one file
  handler, once each.
\<close>

theorem race_two_constructions:
  assumes "shared_state w ''main_logger'' = Some m" and "\<not> truthy m"
    and "shared_state w ''root_level'' = Some rl" and "checkLevel rl = Inr lvl"
    and "shared_state w ''log_file_path'' = Some d"
    and "shared_state w ''log_file_name'' = Some n"
    and "truediv rt d n = Inr f" and "can_open rt f"
    and "shared_state w ''name'' = Some nm"
    and "lg = \<lparr>l_name = nm, l_level = lvl,
               l_handlers =
                 [\<lparr>h_sink = Console, h_level = lvl, h_fmt = console_fmt,
                   h_datefmt = ''[%H:%M:%S]''\<rparr>,
                  \<lparr>h_sink = File f, h_level = lvl, h_fmt = file_fmt,
                   h_datefmt = ''[%Y-%m-%d %H:%M:%S]''\<rparr>]\<rparr>"
    and "w2 = w\<lparr>opened := opened w @ [f, f], heap := heap w @ [lg, lg],
                  shared_state :=
                    (shared_state w)(''main_logger'' \<mapsto> PLogger (Suc (length (heap w))))\<rparr>"
  shows "run_schedule rt [0, 1, 0, 1, 0, 1] ([AtGuard, AtGuard], w)
           = ([Returned (PLogger (Suc (length (heap w)))),
               Returned (PLogger (Suc (length (heap w))))], w2) \<and>
         run_schedule rt [0, 1, 0, 0, 1, 1] ([AtGuard, AtGuard], w)
           = ([Returned (PLogger (length (heap w))),
               Returned (PLogger (Suc (length (heap w))))], w2) \<and>
         deref w2 (PLogger (length (heap w))) = Inr lg \<and>
         deref w2 (PLogger (Suc (length (heap w)))) = Inr lg \<and>
         (if 0 < level \<and> lvl \<le> level
          then Logger_log rt exc (PLogger (Suc (length (heap w)))) level msg [] ei None w2
               = (Inr (),
                  w2\<lparr>emitted := emitted w2 @
                     [\<lparr>o_sink = Console, o_level = level, o_msg = msg, o_exc_info = ei\<rparr>,
                      \<lparr>o_sink = File f, o_level = level, o_msg = msg, o_exc_info = ei\<rparr>]\<rparr>)
          else Logger_log rt exc (PLogger (Suc (length (heap w)))) level msg [] ei None w2
               = (Inr (), w2))"
proof -
  let ?n = "length (heap w)"
  let ?w1 = "w\<lparr>opened := opened w @ [f], heap := heap w @ [lg],
               shared_state := (shared_state w)(''main_logger'' \<mapsto> PLogger ?n)\<rparr>"
  have g: "thread_step rt AtGuard w = (AtConstruct, w)"
    using assms(1,2) by (rule guard_step)
  have c1: "thread_step rt AtConstruct w = (AtReturn, ?w1)"
    using config_logger_success [OF assms(3-9)] assms(10) by (simp add: construct_step)
  have "config_logger rt ?w1 = (Inr (), w2)"
    using config_logger_success [of ?w1 rl lvl d n rt f nm] assms(3-11) by simp
  then have c2: "thread_step rt AtConstruct ?w1 = (AtReturn, w2)"
    by (rule construct_step)
  have r1: "thread_step rt AtReturn ?w1 = (Returned (PLogger ?n), ?w1)"
    by (rule return_step) simp
  have r2: "thread_step rt AtReturn w2 = (Returned (PLogger (Suc ?n)), w2)"
    by (rule return_step) (simp add: assms(11))
  have late: "run_schedule rt [0, 1, 0, 1, 0, 1] ([AtGuard, AtGuard], w)
      = ([Returned (PLogger (Suc ?n)), Returned (PLogger (Suc ?n))], w2)"
    by (simp add: g c1 c2 r2)
  have early: "run_schedule rt [0, 1, 0, 0, 1, 1] ([AtGuard, AtGuard], w)
      = ([Returned (PLogger ?n), Returned (PLogger (Suc ?n))], w2)"
    by (simp add: g c1 c2 r1 r2)
  have o1: "deref w2 (PLogger ?n) = Inr lg"
    by (simp add: deref_def assms(11) nth_append)
  have o2: "deref w2 (PLogger (Suc ?n)) = Inr lg"
    by (simp add: deref_def assms(11) nth_append)
  have emit: "if 0 < level \<and> lvl \<le> level
      then Logger_log rt exc (PLogger (Suc ?n)) level msg [] ei None w2
           = (Inr (),
              w2\<lparr>emitted := emitted w2 @
                 [\<lparr>o_sink = Console, o_level = level, o_msg = msg, o_exc_info = ei\<rparr>,
                  \<lparr>o_sink = File f, o_level = level, o_msg = msg, o_exc_info = ei\<rparr>]\<rparr>)
      else Logger_log rt exc (PLogger (Suc ?n)) level msg [] ei None w2 = (Inr (), w2)"
    using o2
    by (simp add: Logger_log_def isEnabledFor_def CustomLogger__log_def has_key_def
        Logger__log_def callHandlers_def getMessage_def assms(10))
  show ?thesis using late early o1 o2 emit by simp
qed

theorem race_two_constructions_witness:
  "fst (run_schedule demo_rt [0, 1, 0, 1, 0, 1] ([AtGuard, AtGuard], world0 demo_config))
     = [Returned (PLogger 1), Returned (PLogger 1)] \<and>
   fst (run_schedule demo_rt [0, 1, 0, 0, 1, 1] ([AtGuard, AtGuard], world0 demo_config))
     = [Returned (PLogger 0), Returned (PLogger 1)] \<and>
   map (\<lambda>l. map h_sink (l_handlers l))
       (heap (snd (run_schedule demo_rt [0, 1, 0, 1, 0, 1]
                     ([AtGuard, AtGuard], world0 demo_config))))
     = [[Console, File \<lparr>anchor = ''/'', segs = [''proj'', ''logs'', ''LeanPython.log'']\<rparr>],
        [Console, File \<lparr>anchor = ''/'', segs = [''proj'', ''logs'', ''LeanPython.log'']\<rparr>]] \<and>
   opened (snd (run_schedule demo_rt [0, 1, 0, 1, 0, 1]
                  ([AtGuard, AtGuard], world0 demo_config)))
     = [\<lparr>anchor = ''/'', segs = [''proj'', ''logs'', ''LeanPython.log'']\<rparr>,
        \<lparr>anchor = ''/'', segs = [''proj'', ''logs'', ''LeanPython.log'']\<rparr>] \<and>
   fst (run_schedule demo_rt [0, 0, 0, 1, 1, 1] ([AtGuard, AtGuard], world0 demo_config))
     = [Returned (PLogger 0), Returned (PLogger 0)] \<and>
   length (heap (snd (run_schedule demo_rt [0, 0, 0, 1, 1, 1]
                        ([AtGuard, AtGuard], world0 demo_config)))) = 1"
proof -
  let ?w = "world0 demo_config"
  let ?f = "\<lparr>anchor = ''/'', segs = [''proj'', ''logs'', ''LeanPython.log'']\<rparr>"
  let ?lg = "\<lparr>l_name = PStr ''LeanPython'', l_level = 20,
              l_handlers =
                [\<lparr>h_sink = Console, h_level = 20, h_fmt = console_fmt,
                  h_datefmt = ''[%H:%M:%S]''\<rparr>,
                 \<lparr>h_sink = File ?f, h_level = 20, h_fmt = file_fmt,
                  h_datefmt = ''[%Y-%m-%d %H:%M:%S]''\<rparr>]\<rparr>"
  let ?w2 = "?w\<lparr>opened := opened ?w @ [?f, ?f], heap := heap ?w @ [?lg, ?lg],
      shared_state := (shared_state ?w)(''main_logger'' \<mapsto> PLogger (Suc (length (heap ?w))))\<rparr>"
  have h1: "shared_state ?w ''main_logger'' = Some PNone"
    by (simp add: world0_def shared_state0_def)
  have h2: "\<not> truthy PNone" by simp
  have h3: "shared_state ?w ''root_level'' = Some (PInt 20)"
    by (simp add: world0_def shared_state0_def demo_config_def CONFIG_def)
  have h4: "checkLevel (PInt 20) = Inr 20" by simp
  have h5: "shared_state ?w ''log_file_path'' = Some (PPath \<lparr>anchor = ''/'', segs = [''proj'', ''logs'']\<rparr>)"
    by (simp add: world0_def shared_state0_def demo_config_def CONFIG_def demo_rt_def)
  have h6: "shared_state ?w ''log_file_name'' = Some (PPath \<lparr>anchor = [], segs = [''LeanPython.log'']\<rparr>)"
    by (simp add: world0_def shared_state0_def demo_config_def CONFIG_def)
  have h7: "truediv demo_rt (PPath \<lparr>anchor = ''/'', segs = [''proj'', ''logs'']\<rparr>)
      (PPath \<lparr>anchor = [], segs = [''LeanPython.log'']\<rparr>) = Inr ?f"
    by (simp add: path_join_def)
  have h8: "can_open demo_rt ?f" by (simp add: demo_rt_def)
  have h9: "shared_state ?w ''name'' = Some (PStr ''LeanPython'')"
    by (simp add: world0_def shared_state0_def demo_config_def CONFIG_def)
  have h10: "?lg = ?lg" and h11: "?w2 = ?w2" by simp_all
  have len: "length (heap ?w) = 0" by (simp add: world0_def)
  have alone: "run_schedule demo_rt [0, 0, 0, 1, 1, 1] ([AtGuard, AtGuard], ?w)
      = ([Returned (PLogger 0), Returned (PLogger 0)], demo_world)"
    by (simp add: thread_step_def demo_world_eq getitem_def world0_def shared_state0_def
        config_logger_def demo_config_def CONFIG_def demo_rt_def path_join_def Let_def)
  show ?thesis
    using race_two_constructions [OF h1 h2 h3 h4 h5 h6 h7 h8 h9 h10 h11, of 30 None "''m''" False]
      alone
    unfolding len
    by (simp add: world0_def demo_world_eq)
qed

end
